theory Spec2Isabelle
  imports Main "HOL-Library.Sublist"
begin

section \<open>JavaScript values used by both modules\<close>

text \<open>
  A string-valued property that may be absent is a \<open>string option\<close>. JavaScript
  tests such a value for truthiness: \<open>undefined\<close> and the empty string are falsy,
  every other string is truthy.
\<close>

definition truthy :: "string option \<Rightarrow> bool" where
  "truthy v = (case v of None \<Rightarrow> False | Some s \<Rightarrow> s \<noteq> [])"

text \<open>\<open>Array.prototype.join(',')\<close>, which is also how an array renders in a template string.\<close>

fun joinComma :: "string list \<Rightarrow> string" where
  "joinComma [] = []"
| "joinComma [x] = x"
| "joinComma (x # y # ys) = x @ '','' @ joinComma (y # ys)"

text \<open>\<open>String.prototype.includes\<close>: the argument occurs as a contiguous substring.\<close>

definition includes_str :: "string \<Rightarrow> string \<Rightarrow> bool" where
  "includes_str s needle = sublist needle s"

section \<open>Service selection (the module exporting \<open>forOperation\<close>)\<close>

subsection \<open>Data\<close>

record dataSource =
  collection :: string
  variables :: "string list option"

text \<open>
  A \<open>DataOperation\<close>. The selection code reads \<open>sources\<close> and reads and writes
  \<open>outputFormat\<close>; every other property of the object lives in the record's extension.
\<close>

record operation =
  sources :: "dataSource list"
  outputFormat :: "string option"

text \<open>The context object is taken to be present; its \<open>requestedMimeTypes\<close> may be absent.\<close>

record routingContext =
  requestedMimeTypes :: "string list option"

text \<open>
  One entry of \<open>services.yml\<close>. \<open>type_name\<close> is \<open>type.name\<close>;
  \<open>subsetting_variable\<close> is \<open>capabilities.subsetting.variable\<close> and \<open>output_formats\<close>
  is \<open>capabilities.output_formats\<close>, both read through \<open>getIn\<close> with a default, so
  both may be absent. \<open>message\<close> is the property the selection code sets on its
  fallback object.
\<close>

record serviceConfig =
  type_name :: string
  collections :: "string list"
  subsetting_variable :: "bool option"
  output_formats :: "string list option"
  message :: "string option"

datatype error =
    UnsupportedOperation string
  | NotFoundError string
  | TypeError string

datatype serviceClass = LocalDockerService | HttpService | NoOpService

text \<open>
  What \<open>new ServiceClass(serviceConfig, operation)\<close> returns. For one of the three
  service classes it is an instance, given by its class and the two arguments; the
  classes are defined in other modules, and their constructors are taken to return. For
  the built-in \<open>Object\<close>, which the lookup below can also find, \<open>new Object(serviceConfig,
  operation)\<close> returns its first argument, the config object itself.
\<close>

datatype 'a service =
    Service (service_class: serviceClass) (service_config: serviceConfig)
      (service_operation: "'a operation_scheme")
  | ConfigObject (service_config: serviceConfig)

text \<open>
  The module-level bindings: \<open>serviceConfigs\<close>, loaded once, and the \<open>message\<close>
  property of the object bound to the constant \<open>noOpService\<close>, the only part of that
  object the module ever assigns.
\<close>

record moduleState =
  serviceConfigs :: "serviceConfig list"
  noOpService_message :: "string option"

text \<open>
  The object literal bound to \<open>noOpService\<close>, with its current \<open>message\<close>. The literal
  has no \<open>collections\<close> property; the object is never matched against an operation.
\<close>

definition noOpService :: "moduleState \<Rightarrow> serviceConfig" where
  "noOpService ms =
     \<lparr>type_name = ''noOp'', collections = [], subsetting_variable = None,
      output_formats = Some [''application/json''], message = noOpService_message ms\<rparr>"

text \<open>The three own keys of the object literal \<open>serviceTypesToServiceClasses\<close>.\<close>

definition serviceTypesToServiceClasses :: "string \<rightharpoonup> serviceClass" where
  "serviceTypesToServiceClasses =
     [''docker'' \<mapsto> LocalDockerService, ''http'' \<mapsto> HttpService, ''noOp'' \<mapsto> NoOpService]"

text \<open>
  The literal is a plain object, so indexing it with a name that is not an own key finds
  the property of that name inherited from \<open>Object.prototype\<close>, if there is one:
  \<open>constructor\<close> is the function \<open>Object\<close>; the others are built-in methods, or for
  \<open>__proto__\<close> the prototype object, none of which can be called with \<open>new\<close>. Every
  other name gives \<open>undefined\<close>.
\<close>

definition inheritedPropertyNames :: "string list" where
  "inheritedPropertyNames =
     [''constructor'', ''__defineGetter__'', ''__defineSetter__'', ''hasOwnProperty'',
      ''__lookupGetter__'', ''__lookupSetter__'', ''isPrototypeOf'', ''propertyIsEnumerable'',
      ''toString'', ''valueOf'', ''__proto__'', ''toLocaleString'']"

datatype classLookup =
    ServiceClassFound serviceClass
  | ObjectFunction
  | NotAConstructor
  | Undefined

definition lookupServiceClass :: "string \<Rightarrow> classLookup" where
  "lookupServiceClass name =
     (case serviceTypesToServiceClasses name of
        Some ServiceClass \<Rightarrow> ServiceClassFound ServiceClass
      | None \<Rightarrow>
          (if name = ''constructor'' then ObjectFunction
           else if name \<in> set inheritedPropertyNames then NotAConstructor
           else Undefined))"

definition notFoundMessage :: string where
  "notFoundMessage =
     ''Could not find an appropriate service class for type ''
       @ [CHR 0x22] @ ''[object Object]'' @ [CHR 0x22]"

subsection \<open>Functions\<close>

text \<open>
  \<open>buildService\<close>. The test \<open>if (ServiceClass)\<close> passes for every value the lookup
  finds; \<open>new\<close> then fails with a \<open>TypeError\<close> on a value that is not a constructor.
  The message of \<open>NotFoundError\<close> (\<open>notFoundMessage\<close> above) interpolates the object
  \<open>serviceConfig.type\<close>, which renders as \<open>[object Object]\<close>.
\<close>

definition buildService :: "serviceConfig \<Rightarrow> 'a operation_scheme \<Rightarrow> error + 'a service" where
  "buildService serviceConfig operation =
     (case lookupServiceClass (type_name serviceConfig) of
        ServiceClassFound ServiceClass \<Rightarrow> Inr (Service ServiceClass serviceConfig operation)
      | ObjectFunction \<Rightarrow> Inr (ConfigObject serviceConfig)
      | NotAConstructor \<Rightarrow> Inl (TypeError ''ServiceClass is not a constructor'')
      | Undefined \<Rightarrow> Inl (NotFoundError notFoundMessage))"

definition isCollectionMatch :: "'a operation_scheme \<Rightarrow> serviceConfig \<Rightarrow> bool" where
  "isCollectionMatch operation serviceConfig =
     list_all (\<lambda>source. collection source \<in> set (collections serviceConfig)) (sources operation)"

text \<open>\<open>getIn(config, 'capabilities.output_formats', [])\<close>.\<close>

definition supportedFormats :: "serviceConfig \<Rightarrow> string list" where
  "supportedFormats config = (case output_formats config of None \<Rightarrow> [] | Some fs \<Rightarrow> fs)"

text \<open>
  \<open>isMimeTypeAccepted\<close> is imported from another module; the functions below take it as
  the parameter \<open>acc\<close>, called as \<open>acc f format\<close>. The filter keeps a config when
  \<open>find\<close> returns a truthy value.
\<close>

definition selectServicesForFormat ::
  "(string \<Rightarrow> string \<Rightarrow> bool) \<Rightarrow> string \<Rightarrow> serviceConfig list \<Rightarrow> serviceConfig list" where
  "selectServicesForFormat acc format configs =
     filter (\<lambda>config. truthy (find (\<lambda>f. acc f format) (supportedFormats config))) configs"

text \<open>The \<open>for ... of\<close> loop of \<open>selectFormat\<close>; \<open>current\<close> is the local \<open>outputFormat\<close>.\<close>

fun selectFormat_loop ::
  "(string \<Rightarrow> string \<Rightarrow> bool) \<Rightarrow> string list \<Rightarrow> serviceConfig list \<Rightarrow> string option \<Rightarrow> string option" where
  "selectFormat_loop acc [] configs current = current"
| "selectFormat_loop acc (mimeType # rest) configs current =
     (let services = selectServicesForFormat acc mimeType configs;
          outputFormat' =
            (case services of
               [] \<Rightarrow> current
             | s # _ \<Rightarrow> find (\<lambda>f. acc f mimeType) (supportedFormats s))
      in if truthy outputFormat' then outputFormat'
         else selectFormat_loop acc rest configs outputFormat')"

text \<open>\<open>context.requestedMimeTypes && context.requestedMimeTypes.length > 0\<close>.\<close>

definition hasRequestedMimeTypes :: "routingContext \<Rightarrow> bool" where
  "hasRequestedMimeTypes ctx =
     (case requestedMimeTypes ctx of None \<Rightarrow> False | Some ms \<Rightarrow> ms \<noteq> [])"

definition selectFormat ::
  "(string \<Rightarrow> string \<Rightarrow> bool) \<Rightarrow> 'a operation_scheme \<Rightarrow> routingContext \<Rightarrow> serviceConfig list
     \<Rightarrow> string option" where
  "selectFormat acc operation ctx configs =
     (if \<not> truthy (outputFormat operation) \<and> hasRequestedMimeTypes ctx
      then selectFormat_loop acc (case requestedMimeTypes ctx of None \<Rightarrow> [] | Some ms \<Rightarrow> ms)
             configs (outputFormat operation)
      else outputFormat operation)"

definition requiresVariableSubsetting :: "'a operation_scheme \<Rightarrow> bool" where
  "requiresVariableSubsetting operation =
     (filter (\<lambda>s. case variables s of None \<Rightarrow> False | Some vs \<Rightarrow> vs \<noteq> []) (sources operation)
        \<noteq> [])"

text \<open>\<open>getIn(config, 'capabilities.subsetting.variable', false)\<close> as a filter predicate.\<close>

definition supportsVariableSubsetting :: "serviceConfig list \<Rightarrow> serviceConfig list" where
  "supportsVariableSubsetting configs =
     filter (\<lambda>config. subsetting_variable config = Some True) configs"

text \<open>The string literals of the stage failures and of the test in the catch handler.\<close>

definition collectionFailureReason :: string where
  "collectionFailureReason = ''no services are configured for the collection''"

definition variableFailureReason :: string where
  "variableFailureReason =
     ''none of the services configured for the collection support variable subsetting''"

definition formatFailureMarker :: string where
  "formatFailureMarker = ''reformatting to any of the requested formats''"

definition filterCollectionMatches ::
  "'a operation_scheme \<Rightarrow> routingContext \<Rightarrow> serviceConfig list \<Rightarrow> error + serviceConfig list" where
  "filterCollectionMatches operation ctx configs =
     (let matches = filter (isCollectionMatch operation) configs
      in if matches = []
         then Inl (UnsupportedOperation collectionFailureReason)
         else Inr matches)"

definition filterVariableSubsettingMatches ::
  "'a operation_scheme \<Rightarrow> routingContext \<Rightarrow> serviceConfig list \<Rightarrow> error + serviceConfig list" where
  "filterVariableSubsettingMatches operation ctx configs =
     (let variableSubsettingNeeded = requiresVariableSubsetting operation;
          matches = (if variableSubsettingNeeded then supportsVariableSubsetting configs
                     else configs)
      in if matches = []
         then Inl (UnsupportedOperation variableFailureReason)
         else Inr matches)"

text \<open>
  The interpolation \<open>${operation.outputFormat || context.requestedMimeTypes}\<close>: a truthy
  output format as it is, otherwise the requested types joined by commas, and
  \<open>undefined\<close> when the context has none.
\<close>

definition requestedFormats :: "'a operation_scheme \<Rightarrow> routingContext \<Rightarrow> string" where
  "requestedFormats operation ctx =
     (case outputFormat operation of
        Some f \<Rightarrow>
          (if f \<noteq> [] then f
           else (case requestedMimeTypes ctx of None \<Rightarrow> ''undefined'' | Some ms \<Rightarrow> joinComma ms))
      | None \<Rightarrow> (case requestedMimeTypes ctx of None \<Rightarrow> ''undefined'' | Some ms \<Rightarrow> joinComma ms))"

definition formatFailureReason :: "'a operation_scheme \<Rightarrow> routingContext \<Rightarrow> string" where
  "formatFailureReason operation ctx =
     ''none of the services configured for the collection support ''
     @ formatFailureMarker @ '' ''
     @ ''['' @ requestedFormats operation ctx @ '']''"

text \<open>
  \<open>filterOutputFormatMatches\<close> assigns \<open>operation.outputFormat\<close> before it may throw, so
  the model returns the operation together with the outcome.
\<close>

definition filterOutputFormatMatches ::
  "(string \<Rightarrow> string \<Rightarrow> bool) \<Rightarrow> 'a operation_scheme \<Rightarrow> routingContext \<Rightarrow> serviceConfig list
     \<Rightarrow> 'a operation_scheme \<times> (error + serviceConfig list)" where
  "filterOutputFormatMatches acc operation ctx configs =
     (let (operation', services) =
            (if truthy (outputFormat operation) \<or> hasRequestedMimeTypes ctx
             then (case selectFormat acc operation ctx configs of
                     Some f \<Rightarrow>
                       (if f \<noteq> []
                        then (operation\<lparr>outputFormat := Some f\<rparr>,
                              selectServicesForFormat acc f configs)
                        else (operation, []))
                   | None \<Rightarrow> (operation, []))
             else (operation, configs))
      in if services = []
         then (operation', Inl (UnsupportedOperation (formatFailureReason operation' ctx)))
         else (operation', Inr services))"

definition combinationReason :: "'a operation_scheme \<Rightarrow> routingContext \<Rightarrow> string" where
  "combinationReason operation ctx =
     ''none of the services support the combination of both variable subsetting ''
     @ ''and any of the requested formats ''
     @ ''['' @ requestedFormats operation ctx @ '']''"

text \<open>
  \<open>unsupportedCombinationMessage\<close> calls \<open>filterCollectionMatches\<close>, which may throw; the
  model returns that error.
\<close>

definition unsupportedCombinationMessage ::
  "(string \<Rightarrow> string \<Rightarrow> bool) \<Rightarrow> 'a operation_scheme \<Rightarrow> routingContext \<Rightarrow> serviceConfig list
     \<Rightarrow> string \<Rightarrow> error + string" where
  "unsupportedCombinationMessage acc operation ctx configs originalReason =
     (if includes_str originalReason formatFailureMarker
      then (if requiresVariableSubsetting operation
            then (case filterCollectionMatches operation ctx configs of
                    Inl e \<Rightarrow> Inl e
                  | Inr matches \<Rightarrow>
                      (case selectFormat acc operation ctx matches of
                         Some f \<Rightarrow>
                           (if f \<noteq> []
                            then (let servicesWithoutVarSubsetting =
                                        selectServicesForFormat acc f matches
                                  in if servicesWithoutVarSubsetting \<noteq> []
                                     then Inr (combinationReason operation ctx)
                                     else Inr originalReason)
                            else Inr originalReason)
                       | None \<Rightarrow> Inr originalReason))
            else Inr originalReason)
      else Inr originalReason)"

text \<open>The three statements of the \<open>try\<close> block of \<open>forOperation\<close>.\<close>

definition forOperation_try ::
  "(string \<Rightarrow> string \<Rightarrow> bool) \<Rightarrow> 'a operation_scheme \<Rightarrow> routingContext \<Rightarrow> serviceConfig list
     \<Rightarrow> 'a operation_scheme \<times> (error + serviceConfig list)" where
  "forOperation_try acc operation ctx configs =
     (case filterCollectionMatches operation ctx configs of
        Inl e \<Rightarrow> (operation, Inl e)
      | Inr collectionMatches \<Rightarrow>
          (case filterVariableSubsettingMatches operation ctx collectionMatches of
             Inl e \<Rightarrow> (operation, Inl e)
           | Inr varSubsetMatches \<Rightarrow>
               filterOutputFormatMatches acc operation ctx varSubsetMatches))"

text \<open>The default parameter \<open>configs = serviceConfigs\<close>.\<close>

definition configsOrDefault :: "moduleState \<Rightarrow> serviceConfig list option \<Rightarrow> serviceConfig list" where
  "configsOrDefault ms configsArg = (case configsArg of None \<Rightarrow> serviceConfigs ms | Some cs \<Rightarrow> cs)"

text \<open>
  \<open>forOperation\<close>. The result is the module state, the operation as the call leaves
  it, and either the error thrown or the service returned. Destructuring an empty
  \<open>formatMatches\<close> would leave \<open>service\<close> undefined, and \<open>buildService\<close> would then fail
  on \<open>serviceConfig.type\<close>.
\<close>

definition forOperation ::
  "(string \<Rightarrow> string \<Rightarrow> bool) \<Rightarrow> moduleState \<Rightarrow> 'a operation_scheme \<Rightarrow> routingContext
     \<Rightarrow> serviceConfig list option
     \<Rightarrow> moduleState \<times> 'a operation_scheme \<times> (error + 'a service)" where
  "forOperation acc ms operation ctx configsArg =
     (let configs = configsOrDefault ms configsArg;
          (operation', outcome) = forOperation_try acc operation ctx configs
      in case outcome of
           Inr formatMatches \<Rightarrow>
             (case formatMatches of
                [] \<Rightarrow> (ms, operation', Inl (TypeError ''Cannot read property type of undefined''))
              | service # _ \<Rightarrow> (ms, operation', buildService service operation'))
         | Inl (UnsupportedOperation e_message) \<Rightarrow>
             (case unsupportedCombinationMessage acc operation' ctx configs e_message of
                Inl e \<Rightarrow> (ms, operation', Inl e)
              | Inr reason \<Rightarrow>
                  (let ms' = ms\<lparr>noOpService_message := Some reason\<rparr>
                   in (ms', operation', buildService (noOpService ms') operation')))
         | Inl e \<Rightarrow> (ms, operation', Inl e))"

text \<open>
  The re-run the specification speaks of: the collection stage and then the format
  stage on the full list, without the variable-subsetting stage between them.
\<close>

definition rerunIgnoringSubsetting ::
  "(string \<Rightarrow> string \<Rightarrow> bool) \<Rightarrow> 'a operation_scheme \<Rightarrow> routingContext \<Rightarrow> serviceConfig list
     \<Rightarrow> error + serviceConfig list" where
  "rerunIgnoringSubsetting acc operation ctx configs =
     (case filterCollectionMatches operation ctx configs of
        Inl e \<Rightarrow> Inl e
      | Inr matches \<Rightarrow> snd (filterOutputFormatMatches acc operation ctx matches))"

subsection \<open>Mime negotiation\<close>

text \<open>
  Modelled from the spec: \<open>isMimeTypeAccepted\<close> lives in the content-negotiation
  module, which is not among the sources. The spec describes it as the test "whether a
  candidate output format satisfies a requested format pattern", with "wildcard-aware
  acceptance". Here a pattern \<open>type/subtype\<close> accepts a format when each of its two parts
  is \<open>*\<close> or equals the corresponding part of the format. It is used only to
  evaluate the selection functions on concrete inputs; the general theorems hold for
  every acceptance function.
\<close>

definition mimeParts :: "string \<Rightarrow> string \<times> string" where
  "mimeParts s =
     (takeWhile (\<lambda>c. c \<noteq> CHR ''/'') s, drop 1 (dropWhile (\<lambda>c. c \<noteq> CHR ''/'') s))"

definition isMimeTypeAccepted :: "string \<Rightarrow> string \<Rightarrow> bool" where
  "isMimeTypeAccepted mimeType pattern =
     (let (t, s) = mimeParts mimeType; (pt, ps) = mimeParts pattern
      in (pt = ''*'' \<or> pt = t) \<and> (ps = ''*'' \<or> ps = s))"

subsection \<open>The format scan as the specification words it\<close>

text \<open>
  The specification's resolution rule, written from its words: scan the requested
  patterns in order, take the first pattern for which some descriptor has an accepted
  entry, and within it the first matching entry of the first surviving descriptor.
\<close>

definition spec_resolveFormat ::
  "(string \<Rightarrow> string \<Rightarrow> bool) \<Rightarrow> string list \<Rightarrow> serviceConfig list \<Rightarrow> string option" where
  "spec_resolveFormat acc patterns configs =
     (case find (\<lambda>p. selectServicesForFormat acc p configs \<noteq> []) patterns of
        None \<Rightarrow> None
      | Some p \<Rightarrow>
          (case selectServicesForFormat acc p configs of
             [] \<Rightarrow> None
           | s # _ \<Rightarrow> find (\<lambda>f. acc f p) (supportedFormats s)))"

subsection \<open>Concrete inputs\<close>

definition tiffSubsetter :: serviceConfig where
  "tiffSubsetter =
     \<lparr>type_name = ''docker'', collections = [''C1-PROV''], subsetting_variable = Some True,
      output_formats = Some [''image/tiff''], message = None\<rparr>"

definition pngReformatter :: serviceConfig where
  "pngReformatter =
     \<lparr>type_name = ''http'', collections = [''C1-PROV''], subsetting_variable = None,
      output_formats = Some [''application/json'', ''image/png''], message = None\<rparr>"

definition initialModule :: moduleState where
  "initialModule = \<lparr>serviceConfigs = [tiffSubsetter, pngReformatter], noOpService_message = None\<rparr>"

definition pngRequest :: operation where
  "pngRequest =
     \<lparr>sources = [\<lparr>collection = ''C1-PROV'', variables = None\<rparr>],
      outputFormat = Some ''image/png''\<rparr>"

definition pngVariableRequest :: operation where
  "pngVariableRequest =
     \<lparr>sources = [\<lparr>collection = ''C1-PROV'', variables = Some [''V1'']\<rparr>],
      outputFormat = Some ''image/png''\<rparr>"

definition unknownCollectionRequest :: operation where
  "unknownCollectionRequest =
     \<lparr>sources = [\<lparr>collection = ''C9-NONE'', variables = None\<rparr>],
      outputFormat = Some ''image/png''\<rparr>"

definition gifVariableRequest :: operation where
  "gifVariableRequest =
     \<lparr>sources = [\<lparr>collection = ''C1-PROV'', variables = Some [''V1'']\<rparr>],
      outputFormat = Some ''image/gif''\<rparr>"

definition anyFormatRequest :: operation where
  "anyFormatRequest =
     \<lparr>sources = [\<lparr>collection = ''C1-PROV'', variables = None\<rparr>], outputFormat = None\<rparr>"

definition noContext :: routingContext where
  "noContext = \<lparr>requestedMimeTypes = None\<rparr>"

definition jsonContext :: routingContext where
  "jsonContext = \<lparr>requestedMimeTypes = Some [''application/json'']\<rparr>"

definition imageContext :: routingContext where
  "imageContext = \<lparr>requestedMimeTypes = Some [''text/csv'', ''image/*'']\<rparr>"

definition variableAnyFormatRequest :: operation where
  "variableAnyFormatRequest =
     \<lparr>sources = [\<lparr>collection = ''C1-PROV'', variables = Some [''V1'']\<rparr>], outputFormat = None\<rparr>"

definition pngGifContext :: routingContext where
  "pngGifContext = \<lparr>requestedMimeTypes = Some [''image/png'', ''image/gif'']\<rparr>"



section \<open>The callback handler (\<open>service-response.ts\<close>)\<close>

subsection \<open>Strings\<close>

text \<open>\<open>String.prototype.split(',')\<close>: the empty string splits into one empty part.\<close>

fun splitComma :: "string \<Rightarrow> string list" where
  "splitComma [] = [[]]"
| "splitComma (c # cs) =
     (if c = CHR '','' then [] # splitComma cs
      else (case splitComma cs of
              [] \<Rightarrow> [[c]]
            | part # parts \<Rightarrow> (c # part) # parts))"

text \<open>
  \<open>header.match(/filename="([^"]+)"/)\<close>, returning the first capture group: at the
  leftmost position where \<open>filename="\<close> is followed by at least one character other than
  a double quote and then by a double quote.
\<close>

definition doubleQuote :: char where
  "doubleQuote = CHR 0x22"

fun filenameMatch :: "string \<Rightarrow> string option" where
  "filenameMatch [] = None"
| "filenameMatch (c # cs) =
     (if prefix (''filename='' @ [doubleQuote]) (c # cs)
      then (let rest = drop 10 (c # cs);
                name = takeWhile (\<lambda>x. x \<noteq> doubleQuote) rest;
                closing = dropWhile (\<lambda>x. x \<noteq> doubleQuote) rest
            in if name \<noteq> [] \<and> closing \<noteq> [] then Some name else filenameMatch cs)
      else filenameMatch cs)"

subsection \<open>Data\<close>

record callbackQueryItem =
  item_href :: "string option"
  item_type :: "string option"
  item_rel :: "string option"
  item_title :: "string option"
  item_temporal :: "string option"
  item_bbox :: "string option"

record callbackQuery =
  query_item :: "callbackQueryItem option"
  query_error :: "string option"
  query_redirect :: "string option"
  query_status :: "string option"
  query_progress :: "string option"

text \<open>
  A \<open>JobLink\<close>. The type parameter \<open>'f\<close> stands for JavaScript numbers as
  \<open>parseFloat\<close> returns them; \<open>link_temporal\<close> is the pair \<open>{start, end}\<close>.
\<close>

record 'f jobLink =
  link_href :: "string option"
  link_type :: "string option"
  link_rel :: "string option"
  link_title :: "string option"
  link_bbox :: "'f list option"
  link_temporal :: "(string \<times> string) option"

datatype jobStatus = Accepted | Running | Successful | Failed | Canceled | Paused

text \<open>
  The fields of a \<open>Job\<close> the handler touches. \<open>job_progress\<close> holds the number
  assigned by \<open>job.progress = parseInt(progress, 10)\<close>; \<open>None\<close> is \<open>NaN\<close>.
\<close>

record 'f job =
  job_status :: jobStatus
  job_message :: string
  job_progress :: "int option"
  job_links :: "'f jobLink list"
  job_isAsync :: bool

text \<open>
  The errors the handler sees. \<open>JsTypeError\<close> is the built-in \<open>TypeError\<close>;
  \<open>RequestValidationError\<close> and \<open>ServerError\<close> are the classes imported from
  \<open>util/errors\<close>; \<open>OtherError\<close> is any other exception of a collaborator, with its
  \<open>code\<close> property when it has one.
\<close>

datatype callbackError =
    JsTypeError string
  | RequestValidationError string
  | ServerError string
  | OtherError "nat option" string

fun error_message :: "callbackError \<Rightarrow> string" where
  "error_message (JsTypeError m) = m"
| "error_message (RequestValidationError m) = m"
| "error_message (ServerError m) = m"
| "error_message (OtherError c m) = m"

text \<open>
  Modelled from the spec: the classes of \<open>util/errors\<close> are not among the sources. The
  spec gives their HTTP status: a validation error is "surfaced as 400", a
  \<open>ServerError\<close> is "500 to sender". A \<open>TypeError\<close> has no \<open>code\<close> property.
\<close>

fun error_code :: "callbackError \<Rightarrow> nat option" where
  "error_code (JsTypeError m) = None"
| "error_code (RequestValidationError m) = Some 400"
| "error_code (ServerError m) = Some 500"
| "error_code (OtherError c m) = c"

text \<open>
  The built-ins and collaborators the handler calls, as parameters. \<open>parseFloat\<close> and
  \<open>Date_parse\<close> return \<open>None\<close> for \<open>NaN\<close>; \<open>unaryPlus_isNaN\<close> is
  \<open>Number.isNaN(+s)\<close>; \<open>parseInt10\<close> is \<open>parseInt(s, 10)\<close>. The last four say whether
  \<open>objectStoreForProtocol\<close>, \<open>store.upload\<close> (given the destination, the declared length
  and the type), \<open>job.save\<close> and \<open>trx.commit\<close> throw.
\<close>

record 'f env =
  parseFloat :: "string \<Rightarrow> 'f option"
  Date_parse :: "string \<Rightarrow> int option"
  toISOString :: "int \<Rightarrow> string"
  unaryPlus_isNaN :: "string \<Rightarrow> bool"
  parseInt10 :: "string \<Rightarrow> int option"
  objectStoreForProtocol :: "string option \<Rightarrow> callbackError option"
  store_upload :: "string \<Rightarrow> string \<Rightarrow> string option \<Rightarrow> callbackError option"
  job_save :: "'f job \<Rightarrow> callbackError option"
  trx_commit :: "callbackError option"

subsection \<open>The job's methods\<close>

text \<open>
  Modelled from the spec: the \<open>Job\<close> class (\<open>models/job\<close>) is not among the sources.
  The spec's section on the job state machine gives: \<open>addLink\<close> appends a link and is
  tolerated in every state; \<open>fail(message)\<close> "transitions to failed, records message";
  \<open>updateStatus(status)\<close> "transitions to the named status (caller-supplied, validated
  against the enum)", a bad status value being a validation error; \<open>succeed()\<close>
  "transitions to successful"; and the count of links with relation \<open>data\<close> is what
  \<open>getRelatedLinks('data')\<close> returns.
\<close>

definition addLink :: "'f jobLink \<Rightarrow> 'f job \<Rightarrow> 'f job" where
  "addLink link job = job\<lparr>job_links := job_links job @ [link]\<rparr>"

definition fail :: "string \<Rightarrow> 'f job \<Rightarrow> 'f job" where
  "fail msg job = job\<lparr>job_status := Failed, job_message := msg\<rparr>"

definition succeed :: "'f job \<Rightarrow> 'f job" where
  "succeed job = job\<lparr>job_status := Successful\<rparr>"

definition jobStatus_of_string :: "string \<rightharpoonup> jobStatus" where
  "jobStatus_of_string =
     [''accepted'' \<mapsto> Accepted, ''running'' \<mapsto> Running, ''successful'' \<mapsto> Successful,
      ''failed'' \<mapsto> Failed, ''canceled'' \<mapsto> Canceled, ''paused'' \<mapsto> Paused]"

definition updateStatus :: "string \<Rightarrow> 'f job \<Rightarrow> callbackError + 'f job" where
  "updateStatus status job =
     (case jobStatus_of_string status of
        None \<Rightarrow> Inl (JsTypeError ''Job record is invalid'')
      | Some st \<Rightarrow> Inr (job\<lparr>job_status := st\<rparr>))"

definition getRelatedLinks :: "string \<Rightarrow> 'f job \<Rightarrow> 'f jobLink list" where
  "getRelatedLinks rel job = filter (\<lambda>link. link_rel link = Some rel) (job_links job)"

subsection \<open>\<open>updateJobFields\<close>\<close>

definition bboxMessage :: string where
  "bboxMessage =
     ''Unrecognized bounding box format.  Must be 4 comma-separated floats as West,South,East,North''"

definition temporalMessage :: string where
  "temporalMessage =
     ''Unrecognized temporal format.  Must be 2 RFC-3339 dates with optional fractional seconds as Start,End''"

definition progressMessage :: string where
  "progressMessage =
     ''Job record is invalid: ['' @ [doubleQuote] @ ''Job progress must be between 0 and 100''
       @ [doubleQuote] @ '']''"

text \<open>\<open>item.bbox.split(',').map(parseFloat)\<close> and the test that follows it.\<close>

definition parseBbox :: "'f env \<Rightarrow> string \<Rightarrow> callbackError + 'f list" where
  "parseBbox env s =
     (let bbox = map (parseFloat env) (splitComma s)
      in if length bbox \<noteq> 4 \<or> list_ex (\<lambda>v. v = None) bbox
         then Inl (JsTypeError bboxMessage)
         else Inr (map the bbox))"

text \<open>
  \<open>item.temporal.split(',').map((t) => Date.parse(t))\<close>, the test, and the two
  \<open>new Date(t).toISOString()\<close>.
\<close>

definition parseTemporal :: "'f env \<Rightarrow> string \<Rightarrow> callbackError + (string \<times> string)" where
  "parseTemporal env s =
     (case map (Date_parse env) (splitComma s) of
        [Some start, Some finish] \<Rightarrow> Inr (toISOString env start, toISOString env finish)
      | _ \<Rightarrow> Inl (JsTypeError temporalMessage))"

text \<open>
  The statements of the \<open>if (item)\<close> block before \<open>job.addLink(link)\<close>: \<open>_.pick\<close>, the
  optional \<open>bbox\<close> and \<open>temporal\<close>, and the default of \<open>rel\<close>.
\<close>

definition linkFromItem :: "'f env \<Rightarrow> callbackQueryItem \<Rightarrow> callbackError + 'f jobLink" where
  "linkFromItem env item =
     (let link = \<lparr>link_href = item_href item, link_type = item_type item,
                  link_rel = item_rel item, link_title = item_title item,
                  link_bbox = None, link_temporal = None\<rparr>
      in case (if truthy (item_bbox item)
               then (case parseBbox env (case item_bbox item of None \<Rightarrow> [] | Some s \<Rightarrow> s) of
                       Inl e \<Rightarrow> Inl e
                     | Inr bbox \<Rightarrow> Inr (link\<lparr>link_bbox := Some bbox\<rparr>))
               else Inr link) of
           Inl e \<Rightarrow> Inl e
         | Inr link1 \<Rightarrow>
             (case (if truthy (item_temporal item)
                    then (case parseTemporal env
                                 (case item_temporal item of None \<Rightarrow> [] | Some s \<Rightarrow> s) of
                            Inl e \<Rightarrow> Inl e
                          | Inr t \<Rightarrow> Inr (link1\<lparr>link_temporal := Some t\<rparr>))
                    else Inr link1) of
                Inl e \<Rightarrow> Inl e
              | Inr link2 \<Rightarrow>
                  Inr (link2\<lparr>link_rel := (if truthy (link_rel link2) then link_rel link2
                                           else Some ''data'')\<rparr>)))"

text \<open>
  The \<open>try\<close> block of \<open>updateJobFields\<close>. The job is mutated in place, so the job as
  the block leaves it is returned with the outcome.
\<close>

definition updateJobFields_try ::
  "'f env \<Rightarrow> 'f job \<Rightarrow> callbackQuery \<Rightarrow> 'f job \<times> (callbackError + unit)" where
  "updateJobFields_try env job query =
     (case (case query_item query of
              None \<Rightarrow> Inr job
            | Some item \<Rightarrow>
                (case linkFromItem env item of
                   Inl e \<Rightarrow> Inl e
                 | Inr link \<Rightarrow> Inr (addLink link job))) of
        Inl e \<Rightarrow> (job, Inl e)
      | Inr job1 \<Rightarrow>
          (case (if truthy (query_progress query)
                 then (let progress = (case query_progress query of None \<Rightarrow> [] | Some p \<Rightarrow> p)
                       in if unaryPlus_isNaN env progress
                          then Inl (JsTypeError progressMessage)
                          else Inr (job1\<lparr>job_progress := parseInt10 env progress\<rparr>))
                 else Inr job1) of
             Inl e \<Rightarrow> (job1, Inl e)
           | Inr job2 \<Rightarrow>
               (if truthy (query_error query)
                then (fail (case query_error query of None \<Rightarrow> [] | Some m \<Rightarrow> m) job2, Inr ())
                else if truthy (query_status query)
                then (case updateStatus (case query_status query of None \<Rightarrow> [] | Some s \<Rightarrow> s)
                             job2 of
                        Inl e \<Rightarrow> (job2, Inl e)
                      | Inr job3 \<Rightarrow> (job3, Inr ()))
                else if truthy (query_redirect query)
                then (succeed (addLink \<lparr>link_href = query_redirect query, link_type = None,
                                        link_rel = Some ''data'', link_title = None,
                                        link_bbox = None, link_temporal = None\<rparr> job2),
                      Inr ())
                else (job2, Inr ()))))"

text \<open>
  The \<open>catch\<close> block: a \<open>TypeError\<close> becomes a \<open>RequestValidationError\<close>, anything
  else a \<open>ServerError\<close>, with the same message.
\<close>

definition updateJobFields ::
  "'f env \<Rightarrow> 'f job \<Rightarrow> callbackQuery \<Rightarrow> 'f job \<times> (callbackError + unit)" where
  "updateJobFields env job query =
     (case updateJobFields_try env job query of
        (job', Inl e) \<Rightarrow>
          (job', Inl (case e of
                        JsTypeError m \<Rightarrow> RequestValidationError m
                      | _ \<Rightarrow> ServerError (error_message e)))
      | (job', Inr u) \<Rightarrow> (job', Inr u))"

subsection \<open>The item validation as the specification words it\<close>

text \<open>
  The conditions of the specification, written from its words: the string "splits on
  commas into exactly 4 float-parsable parts", the string "parses to exactly 2
  timestamps"; and the link it describes as stored: the picked properties, the 4 parsed
  floats, the two timestamps in ISO form, and \<open>rel\<close> defaulting to \<open>data\<close>.
\<close>

definition fourFloats :: "'f env \<Rightarrow> string \<Rightarrow> bool" where
  "fourFloats env s =
     (length (splitComma s) = 4 \<and> list_all (\<lambda>part. parseFloat env part \<noteq> None) (splitComma s))"

definition twoTimestamps :: "'f env \<Rightarrow> string \<Rightarrow> bool" where
  "twoTimestamps env s =
     (length (splitComma s) = 2 \<and> list_all (\<lambda>part. Date_parse env part \<noteq> None) (splitComma s))"

definition spec_storedLink :: "'f env \<Rightarrow> callbackQueryItem \<Rightarrow> 'f jobLink" where
  "spec_storedLink env item =
     \<lparr>link_href = item_href item, link_type = item_type item,
      link_rel = (if truthy (item_rel item) then item_rel item else Some ''data''),
      link_title = item_title item,
      link_bbox =
        (case item_bbox item of
           None \<Rightarrow> None
         | Some s \<Rightarrow> if s = [] then None
                     else Some (map (\<lambda>part. the (parseFloat env part)) (splitComma s))),
      link_temporal =
        (case item_temporal item of
           None \<Rightarrow> None
         | Some s \<Rightarrow> if s = [] then None
                     else Some (toISOString env (the (Date_parse env (splitComma s ! 0))),
                                toISOString env (the (Date_parse env (splitComma s ! 1)))))\<rparr>"

subsection \<open>The progress invariant as the specification words it\<close>


subsection \<open>\<open>responseHandler\<close>\<close>

record headers =
  content_length :: "string option"
  content_type :: "string option"
  content_disposition :: "string option"

record request =
  req_requestId :: string
  req_query :: callbackQuery
  req_headers :: headers

datatype trxStatus = NoTransaction | TrxOpen | TrxCommitted | TrxRolledBack

datatype responseBody = SendText string | SendJson nat string

text \<open>
  Modelled from the spec: the database layer (\<open>util/db\<close>) and the persistence methods
  of \<open>Job\<close> are not among the sources. The spec has the handler "open a transactional
  scope" and "load the Job by request id inside it", "persist the job within the same
  transaction", and "commit on success, roll back on any failure", the scope providing
  "atomicity (all mutations visible together or none)". So the database holds the
  persisted jobs by request id, the state of the transaction, and the writes made inside
  it; a commit applies the writes in order, a rollback discards them. The spec names no
  validation in the persist step: it lists a bad progress among the malformed callback
  input, calls the range of a progress "a recommended addition even though the minimal
  contract only guards numeric parse failure", and has persistence fail only
  unexpectedly; so \<open>save\<close> writes the job as it is, and the parameter \<open>job_save\<close> of
  the environment stands for the unexpected failure.
\<close>

record 'f database =
  persisted :: "string \<rightharpoonup> 'f job"
  trx :: trxStatus
  pending :: "(string \<times> 'f job) list"

definition db_transaction :: "'f database \<Rightarrow> 'f database" where
  "db_transaction db = db\<lparr>trx := TrxOpen, pending := []\<rparr>"

definition byRequestId :: "'f database \<Rightarrow> string \<Rightarrow> 'f job option" where
  "byRequestId db requestId = persisted db requestId"

definition save :: "string \<Rightarrow> 'f job \<Rightarrow> 'f database \<Rightarrow> 'f database" where
  "save requestId job db = db\<lparr>pending := pending db @ [(requestId, job)]\<rparr>"

definition commit :: "'f database \<Rightarrow> 'f database" where
  "commit db =
     db\<lparr>persisted := foldl (\<lambda>m (k, j). m(k \<mapsto> j)) (persisted db) (pending db),
        trx := TrxCommitted, pending := []\<rparr>"

definition rollback :: "'f database \<Rightarrow> 'f database" where
  "rollback db = db\<lparr>trx := TrxRolledBack, pending := []\<rparr>"

text \<open>
  What a call of the handler leaves behind: the database, the uploads made to the object
  store (destination, declared length, type), the response, and the job object the
  handler worked on. Calls of the logger are not modelled.
\<close>

record 'f handled =
  database :: "'f database"
  uploads :: "(string \<times> string \<times> string option) list"
  res_status :: "nat option"
  res_body :: "responseBody option"
  handled_job :: "'f job option"

text \<open>
  The condition under which the body is taken as a file result:
  \<open>!query.item?.href && !query.error && req.headers['content-length'] &&
  req.headers['content-length'] !== '0'\<close>.
\<close>

definition hasFileBody :: "request \<Rightarrow> bool" where
  "hasFileBody req =
     (\<not> truthy (case query_item (req_query req) of None \<Rightarrow> None | Some item \<Rightarrow> item_href item)
      \<and> \<not> truthy (query_error (req_query req))
      \<and> truthy (content_length (req_headers req))
      \<and> content_length (req_headers req) \<noteq> Some ''0'')"

text \<open>The type given to the staged item: the content type unless it is the form encoding.\<close>

definition stagedType :: "request \<Rightarrow> string option" where
  "stagedType req =
     (if truthy (content_type (req_headers req))
         \<and> content_type (req_headers req) \<noteq> Some ''application/x-www-form-urlencoded''
      then content_type (req_headers req) else None)"

text \<open>
  The file name: \<open>query.item?.title\<close>, replaced by the capture of the
  \<open>Content-Disposition\<close> header when that header is present and matches.
\<close>

definition stagedFilename :: "request \<Rightarrow> string option" where
  "stagedFilename req =
     (let filename = (case query_item (req_query req) of None \<Rightarrow> None | Some item \<Rightarrow> item_title item)
      in if truthy (content_disposition (req_headers req))
         then (case filenameMatch (case content_disposition (req_headers req) of
                                     None \<Rightarrow> [] | Some h \<Rightarrow> h) of
                 Some name \<Rightarrow> Some name
               | None \<Rightarrow> filename)
         else filename)"

definition filenameMessage :: string where
  "filenameMessage =
     ''Services providing output via POST body must send a filename via a ''
     @ [doubleQuote] @ ''Content-Disposition'' @ [doubleQuote] @ '' header or ''
     @ [doubleQuote] @ ''item[title]'' @ [doubleQuote] @ '' query parameter''"

text \<open>
  The staging branch of the \<open>try\<close> block. It returns the uploads made and either the
  error thrown or \<open>queryOverrides\<close>, as the overriding item and the overriding status.
  Reading \<open>href\<close> of the first \<open>s3-access\<close> link of a job that has none is a
  \<open>TypeError\<close>; an undefined \<open>href\<close> concatenates as the text \<open>undefined\<close>.
\<close>

definition stageBody ::
  "'f env \<Rightarrow> 'f job \<Rightarrow> request
     \<Rightarrow> (string \<times> string \<times> string option) list
        \<times> (callbackError + (callbackQueryItem option \<times> string option))" where
  "stageBody env job req =
     (if hasFileBody req
      then (case getRelatedLinks ''s3-access'' job of
              [] \<Rightarrow> ([], Inl (JsTypeError ''Cannot read property 'href' of undefined''))
            | first # _ \<Rightarrow>
                (let stagingLocation = link_href first
                 in case objectStoreForProtocol env stagingLocation of
                      Some e \<Rightarrow> ([], Inl e)
                    | None \<Rightarrow>
                        (case stagedFilename req of
                           None \<Rightarrow> ([], Inl (JsTypeError filenameMessage))
                         | Some filename \<Rightarrow>
                             (if filename = [] then ([], Inl (JsTypeError filenameMessage))
                              else (let href = (case stagingLocation of
                                                  None \<Rightarrow> ''undefined'' | Some l \<Rightarrow> l) @ filename;
                                        len = (case content_length (req_headers req) of
                                                 None \<Rightarrow> [] | Some l \<Rightarrow> l)
                                    in case store_upload env href len (stagedType req) of
                                         Some e \<Rightarrow> ([], Inl e)
                                       | None \<Rightarrow>
                                           ([(href, len, stagedType req)],
                                            Inr (Some \<lparr>item_href = Some href,
                                                       item_type = stagedType req,
                                                       item_rel = None, item_title = None,
                                                       item_temporal = None, item_bbox = None\<rparr>,
                                                 if \<not> job_isAsync job then Some ''successful''
                                                 else None)))))))
      else ([], Inr (None, None)))"

text \<open>
  \<open>_.merge({}, query, queryOverrides)\<close>: a property defined in the overrides wins, an
  undefined one leaves the query's value; the two items are merged property by property.
\<close>

definition mergeItem :: "callbackQueryItem option \<Rightarrow> callbackQueryItem option \<Rightarrow> callbackQueryItem option" where
  "mergeItem queryItem overrideItem =
     (case overrideItem of
        None \<Rightarrow> queryItem
      | Some over \<Rightarrow>
          (case queryItem of
             None \<Rightarrow> Some over
           | Some item \<Rightarrow>
               Some (item\<lparr>item_href := (case item_href over of None \<Rightarrow> item_href item | Some h \<Rightarrow> Some h),
                          item_type := (case item_type over of None \<Rightarrow> item_type item | Some t \<Rightarrow> Some t)\<rparr>)))"

definition mergeFields :: "callbackQuery \<Rightarrow> callbackQueryItem option \<times> string option \<Rightarrow> callbackQuery" where
  "mergeFields query overrides =
     query\<lparr>query_item := mergeItem (query_item query) (fst overrides),
           query_status := (case snd overrides of None \<Rightarrow> query_status query | Some s \<Rightarrow> Some s)\<rparr>"

text \<open>The status of the \<open>catch\<close> block: \<open>e.code || (e instanceof TypeError ? 400 : 500)\<close>.\<close>

definition errorStatus :: "callbackError \<Rightarrow> nat" where
  "errorStatus e =
     (let fallback = (case e of JsTypeError m \<Rightarrow> 400 | _ \<Rightarrow> 500)
      in case error_code e of
           None \<Rightarrow> fallback
         | Some c \<Rightarrow> if c \<noteq> 0 then c else fallback)"

text \<open>
  The \<open>try\<close> block of \<open>responseHandler\<close> after the job was found: the database and
  the job as the block leaves them, the uploads, and the error thrown if any. The job is
  saved under the request id it was loaded by.
\<close>

definition responseHandler_try ::
  "'f env \<Rightarrow> 'f database \<Rightarrow> 'f job \<Rightarrow> request
     \<Rightarrow> 'f database \<times> 'f job \<times> (string \<times> string \<times> string option) list
        \<times> (callbackError + unit)" where
  "responseHandler_try env db job req =
     (case stageBody env job req of
        (ups, Inl e) \<Rightarrow> (db, job, ups, Inl e)
      | (ups, Inr queryOverrides) \<Rightarrow>
          (let fields = mergeFields (req_query req) queryOverrides
           in case updateJobFields env job fields of
                (job', Inl e) \<Rightarrow> (db, job', ups, Inl e)
              | (job', Inr _) \<Rightarrow>
                  (case job_save env job' of
                     Some e \<Rightarrow> (db, job', ups, Inl e)
                   | None \<Rightarrow>
                       (let db' = save (req_requestId req) job' db
                        in case trx_commit env of
                             Some e \<Rightarrow> (db', job', ups, Inl e)
                           | None \<Rightarrow> (commit db', job', ups, Inr ())))))"

text \<open>
  \<open>responseHandler\<close>: the transaction is opened and the job looked up; a missing job
  is answered with 404 after a rollback; otherwise the \<open>try\<close> block runs, answered with
  200, or with the status of the error after a rollback.
\<close>

definition responseHandler :: "'f env \<Rightarrow> 'f database \<Rightarrow> request \<Rightarrow> 'f handled" where
  "responseHandler env db req =
     (let trx_db = db_transaction db
      in case byRequestId trx_db (req_requestId req) of
           None \<Rightarrow>
             \<lparr>database = rollback trx_db, uploads = [],
              res_status = Some 404,
              res_body = Some (SendJson 404 ''could not find a job with the given ID''),
              handled_job = None\<rparr>
         | Some job \<Rightarrow>
             (case responseHandler_try env trx_db job req of
                (db', job', ups, Inr _) \<Rightarrow>
                  \<lparr>database = db', uploads = ups, res_status = Some 200,
                   res_body = Some (SendText ''Ok''), handled_job = Some job'\<rparr>
              | (db', job', ups, Inl e) \<Rightarrow>
                  \<lparr>database = rollback db', uploads = ups,
                   res_status = Some (errorStatus e),
                   res_body = Some (SendJson (errorStatus e) (error_message e)),
                   handled_job = Some job'\<rparr>))"

subsection \<open>Concrete inputs for the handler\<close>

text \<open>
  An environment for evaluation: the values of the built-ins on the few strings used
  below (numbers as integers), and collaborators that do not throw.
\<close>

definition exampleEnv :: "int env" where
  "exampleEnv =
     \<lparr>parseFloat = map_of [(''10'', 10), (''20'', 20), (''30'', 30), (''40'', 40)],
      Date_parse = map_of [(''2020-01-01T00:00:00Z'', 1577836800000),
                           (''2020-01-02T00:00:00Z'', 1577923200000)],
      toISOString = (\<lambda>t. if t = 1577836800000 then ''2020-01-01T00:00:00.000Z''
                          else if t = 1577923200000 then ''2020-01-02T00:00:00.000Z''
                          else []),
      unaryPlus_isNaN = (\<lambda>s. s \<notin> {''50'', ''150''}),
      parseInt10 = map_of [(''50'', 50), (''150'', 150)],
      objectStoreForProtocol = (\<lambda>_. None),
      store_upload = (\<lambda>_ _ _. None),
      job_save = (\<lambda>_. None),
      trx_commit = None\<rparr>"

definition stagingLink :: "int jobLink" where
  "stagingLink =
     \<lparr>link_href = Some ''s3://staging/job-1/'', link_type = None, link_rel = Some ''s3-access'',
      link_title = None, link_bbox = None, link_temporal = None\<rparr>"

definition syncJob :: "int job" where
  "syncJob =
     \<lparr>job_status = Running, job_message = [], job_progress = Some 0,
      job_links = [stagingLink], job_isAsync = False\<rparr>"

definition unstagedJob :: "int job" where
  "unstagedJob =
     \<lparr>job_status = Running, job_message = [], job_progress = Some 0,
      job_links = [], job_isAsync = False\<rparr>"

definition exampleJobs :: "string \<rightharpoonup> int job" where
  "exampleJobs = [''req-1'' \<mapsto> syncJob, ''req-2'' \<mapsto> unstagedJob]"

definition exampleDb :: "int database" where
  "exampleDb = \<lparr>persisted = exampleJobs, trx = NoTransaction, pending = []\<rparr>"

definition request1 :: "callbackQuery \<Rightarrow> headers \<Rightarrow> request" where
  "request1 query hs = \<lparr>req_requestId = ''req-1'', req_query = query, req_headers = hs\<rparr>"

definition emptyQuery :: callbackQuery where
  "emptyQuery =
     \<lparr>query_item = None, query_error = None, query_redirect = None, query_status = None,
      query_progress = None\<rparr>"

definition emptyItem :: callbackQueryItem where
  "emptyItem =
     \<lparr>item_href = None, item_type = None, item_rel = None, item_title = None,
      item_temporal = None, item_bbox = None\<rparr>"

definition validItem :: callbackQueryItem where
  "validItem =
     emptyItem\<lparr>item_href := Some ''https://example.com/out.tif'',
               item_bbox := Some ''10,20,30,40'',
               item_temporal := Some ''2020-01-01T00:00:00Z,2020-01-02T00:00:00Z''\<rparr>"

definition shortBboxItem :: callbackQueryItem where
  "shortBboxItem = emptyItem\<lparr>item_bbox := Some ''10,20,30''\<rparr>"

definition emptyBboxItem :: callbackQueryItem where
  "emptyBboxItem = emptyItem\<lparr>item_bbox := Some []\<rparr>"

definition oneDateItem :: callbackQueryItem where
  "oneDateItem =
     emptyItem\<lparr>item_bbox := Some ''10,20,30,40'', item_temporal := Some ''2020-01-01T00:00:00Z''\<rparr>"

definition itemQuery :: "callbackQueryItem \<Rightarrow> callbackQuery" where
  "itemQuery item = emptyQuery\<lparr>query_item := Some item\<rparr>"


definition bodyHeaders :: headers where
  "bodyHeaders =
     \<lparr>content_length = Some ''1024'', content_type = Some ''image/tiff'',
      content_disposition = Some (''attachment; filename='' @ [doubleQuote] @ ''out.tif''
                                    @ [doubleQuote])\<rparr>"

definition namelessHeaders :: headers where
  "namelessHeaders =
     \<lparr>content_length = Some ''1024'', content_type = Some ''image/tiff'',
      content_disposition = None\<rparr>"


section \<open>Properties of service selection\<close>

subsection \<open>The stages and the catch handler\<close>

lemma collection_reason_not_format:
  "\<not> includes_str collectionFailureReason formatFailureMarker"
  unfolding includes_str_def collectionFailureReason_def formatFailureMarker_def by code_simp

lemma variable_reason_not_format:
  "\<not> includes_str variableFailureReason formatFailureMarker"
  unfolding includes_str_def variableFailureReason_def formatFailureMarker_def by code_simp

lemma format_reason_is_format:
  "includes_str (formatFailureReason operation ctx) formatFailureMarker"
  unfolding includes_str_def sublist_def formatFailureReason_def by blast

lemma filterCollectionMatches_sources:
  "sources operation' = sources operation \<Longrightarrow>
   filterCollectionMatches operation' ctx configs = filterCollectionMatches operation ctx configs"
  by (simp add: filterCollectionMatches_def isCollectionMatch_def [abs_def])

lemma filterCollectionMatches_Inl:
  "filterCollectionMatches operation ctx configs = Inl e \<Longrightarrow>
   e = UnsupportedOperation collectionFailureReason"
  by (auto simp: filterCollectionMatches_def Let_def split: if_splits)

lemma filterVariableSubsettingMatches_Inr:
  "filterVariableSubsettingMatches operation ctx configs = Inr matches \<Longrightarrow> matches \<noteq> []"
  by (auto simp: filterVariableSubsettingMatches_def Let_def split: if_splits)

lemma filterVariableSubsettingMatches_Inl:
  "filterVariableSubsettingMatches operation ctx configs = Inl e \<Longrightarrow>
   e = UnsupportedOperation variableFailureReason"
  by (auto simp: filterVariableSubsettingMatches_def Let_def split: if_splits)

lemma filterOutputFormatMatches_sources:
  "filterOutputFormatMatches acc operation ctx configs = (operation', outcome) \<Longrightarrow>
   \<exists>f. operation' = operation\<lparr>outputFormat := f\<rparr>"
proof -
  assume a: "filterOutputFormatMatches acc operation ctx configs = (operation', outcome)"
  have "operation' = operation \<or> (\<exists>f. operation' = operation\<lparr>outputFormat := Some f\<rparr>)"
    using a by (auto simp: filterOutputFormatMatches_def Let_def split: if_splits option.splits)
  moreover have "operation = operation\<lparr>outputFormat := outputFormat operation\<rparr>"
    by simp
  ultimately show ?thesis by metis
qed

lemma filterOutputFormatMatches_Inr:
  "filterOutputFormatMatches acc operation ctx configs = (operation', Inr services) \<Longrightarrow>
   services \<noteq> []"
  by (auto simp: filterOutputFormatMatches_def Let_def split: if_splits option.splits)

lemma filterOutputFormatMatches_Inl:
  "filterOutputFormatMatches acc operation ctx configs = (operation', Inl e) \<Longrightarrow>
   e = UnsupportedOperation (formatFailureReason operation' ctx)"
  by (auto simp: filterOutputFormatMatches_def Let_def split: if_splits option.splits)

text \<open>The outcomes of the try block.\<close>

lemma forOperation_try_cases:
  assumes "forOperation_try acc operation ctx configs = (operation', outcome)"
  shows "(operation' = operation \<and> filterCollectionMatches operation ctx configs = Inl (UnsupportedOperation collectionFailureReason)
           \<and> outcome = Inl (UnsupportedOperation collectionFailureReason))
       \<or> (\<exists>cm. operation' = operation \<and> filterCollectionMatches operation ctx configs = Inr cm
            \<and> filterVariableSubsettingMatches operation ctx cm = Inl (UnsupportedOperation variableFailureReason)
            \<and> outcome = Inl (UnsupportedOperation variableFailureReason))
       \<or> (\<exists>cm vm. filterCollectionMatches operation ctx configs = Inr cm
            \<and> filterVariableSubsettingMatches operation ctx cm = Inr vm
            \<and> filterOutputFormatMatches acc operation ctx vm = (operation', outcome))"
proof (cases "filterCollectionMatches operation ctx configs")
  case (Inl e)
  with assms filterCollectionMatches_Inl [OF Inl] show ?thesis
    by (simp add: forOperation_try_def)
next
  case (Inr cm)
  note cm = this
  show ?thesis
  proof (cases "filterVariableSubsettingMatches operation ctx cm")
    case (Inl e)
    with assms cm filterVariableSubsettingMatches_Inl [OF Inl] show ?thesis
      by (simp add: forOperation_try_def)
  next
    case (Inr vm)
    with assms cm show ?thesis
      by (simp add: forOperation_try_def)
  qed
qed

lemma unsupportedCombinationMessage_not_format:
  "\<not> includes_str reason formatFailureMarker \<Longrightarrow>
   unsupportedCombinationMessage acc operation ctx configs reason = Inr reason"
  by (simp add: unsupportedCombinationMessage_def)

lemma unsupportedCombinationMessage_Inr:
  "filterCollectionMatches operation ctx configs = Inr cm \<Longrightarrow>
   \<exists>m. unsupportedCombinationMessage acc operation ctx configs reason = Inr m"
  by (auto simp: unsupportedCombinationMessage_def Let_def split: option.splits)

lemma forOperation_selected:
  assumes "forOperation_try acc operation ctx (configsOrDefault ms configsArg)
             = (operation', Inr (s # rest))"
  shows "forOperation acc ms operation ctx configsArg = (ms, operation', buildService s operation')"
  using assms by (simp add: forOperation_def)

lemma buildService_noOpService:
  "buildService (noOpService ms) operation =
     Inr (Service NoOpService (noOpService ms) operation)"
  by (simp add: buildService_def lookupServiceClass_def noOpService_def
        serviceTypesToServiceClasses_def)




lemma formatFailureReason_text:
  "formatFailureReason operation ctx =
     ''none of the services configured for the collection support reformatting to any of the requested formats [''
       @ requestedFormats operation ctx @ '']''"
  by (simp add: formatFailureReason_def formatFailureMarker_def)

lemma combinationReason_text:
  "combinationReason operation ctx =
     ''none of the services support the combination of both variable subsetting and any of the requested formats [''
       @ requestedFormats operation ctx @ '']''"
  by (simp add: combinationReason_def)


lemma forOperation_fallback:
  assumes tr: "forOperation_try acc operation ctx (configsOrDefault ms configsArg)
             = (operation', Inl (UnsupportedOperation e_message))"
    and msg: "unsupportedCombinationMessage acc operation' ctx (configsOrDefault ms configsArg) e_message
             = Inr reason"
  shows "forOperation acc ms operation ctx configsArg =
           (ms\<lparr>noOpService_message := Some reason\<rparr>, operation',
            Inr (Service NoOpService (noOpService (ms\<lparr>noOpService_message := Some reason\<rparr>)) operation'))"
  using assms by (simp add: forOperation_def Let_def buildService_noOpService)

lemma forOperation_try_sources:
  assumes "forOperation_try acc operation ctx configs = (operation', outcome)"
  shows "\<exists>f. operation' = operation\<lparr>outputFormat := f\<rparr>"
proof -
  have "operation = operation\<lparr>outputFormat := outputFormat operation\<rparr>"
    by simp
  then show ?thesis
    using forOperation_try_cases [OF assms] filterOutputFormatMatches_sources
    by metis
qed

lemma forOperation_try_Inr:
  assumes "forOperation_try acc operation ctx configs = (operation', Inr services)"
  shows "services \<noteq> []"
  using forOperation_try_cases [OF assms] filterOutputFormatMatches_Inr
  by blast

text \<open>Whatever stage fails, the catch block computes a reason and does not throw.\<close>

lemma forOperation_try_Inl:
  assumes "forOperation_try acc operation ctx configs = (operation', Inl e)"
  shows "\<exists>e_message reason. e = UnsupportedOperation e_message
           \<and> unsupportedCombinationMessage acc operation' ctx configs e_message = Inr reason"
proof -
  consider
    (collection) "e = UnsupportedOperation collectionFailureReason"
  | (variable) "e = UnsupportedOperation variableFailureReason"
  | (format) cm vm where "filterCollectionMatches operation ctx configs = Inr cm"
      "filterVariableSubsettingMatches operation ctx cm = Inr vm"
      "filterOutputFormatMatches acc operation ctx vm = (operation', Inl e)"
    using forOperation_try_cases [OF assms] by blast
  then show ?thesis
  proof cases
    case collection
    show ?thesis
      unfolding collection
      using unsupportedCombinationMessage_not_format [OF collection_reason_not_format]
      by blast
  next
    case variable
    show ?thesis
      unfolding variable
      using unsupportedCombinationMessage_not_format [OF variable_reason_not_format]
      by blast
  next
    case format
    have "sources operation' = sources operation"
      using filterOutputFormatMatches_sources [OF format(3)] by auto
    from filterCollectionMatches_sources [OF this]
    have "filterCollectionMatches operation' ctx configs = Inr cm"
      using format(1) by simp
    from unsupportedCombinationMessage_Inr [OF this]
    show ?thesis
      using filterOutputFormatMatches_Inl [OF format(3)] by blast
  qed
qed


subsection \<open>Evaluation on the concrete inputs\<close>







subsection \<open>Stage failures never leave the selection\<close>





subsection \<open>The format stage\<close>

lemma selectServicesForFormat_member:
  "s \<in> set (selectServicesForFormat acc format configs) \<Longrightarrow>
   \<exists>f. find (\<lambda>f. acc f format) (supportedFormats s) = Some f \<and> f \<noteq> []"
  by (auto simp: selectServicesForFormat_def truthy_def split: option.splits)

lemma find_Some_accepted:
  "find P xs = Some x \<Longrightarrow> x \<in> set xs \<and> P x"
  by (induction xs) (auto split: if_splits)

lemma selectFormat_loop_spec:
  "\<not> truthy current \<Longrightarrow>
   selectFormat_loop acc patterns configs current =
     (case spec_resolveFormat acc patterns configs of None \<Rightarrow> current | Some f \<Rightarrow> Some f)
   \<and> (\<forall>f. spec_resolveFormat acc patterns configs = Some f \<longrightarrow> f \<noteq> [])"
proof (induction patterns)
  case Nil
  then show ?case by (simp add: spec_resolveFormat_def)
next
  case (Cons p ps)
  show ?case
  proof (cases "selectServicesForFormat acc p configs")
    case Nil
    with Cons show ?thesis
      by (simp add: spec_resolveFormat_def)
  next
    case (Cons s rest)
    then have "s \<in> set (selectServicesForFormat acc p configs)" by simp
    from selectServicesForFormat_member [OF this]
    obtain f where f: "find (\<lambda>f. acc f p) (supportedFormats s) = Some f" "f \<noteq> []"
      by blast
    with Cons show ?thesis
      by (simp add: spec_resolveFormat_def truthy_def)
  qed
qed

text \<open>
  C3, as the code has it. When \<open>operation.outputFormat\<close> is already truthy, the format
  stage keeps it: the requested mime types are not scanned, the operation is left as it
  is, and the configs are filtered to those with an entry accepted by that format. When
  it is not set and \<open>context.requestedMimeTypes\<close> is non-empty, the scan of the
  specification decides: if no requested pattern has a matching config the stage fails
  and writes nothing; otherwise the first matching entry of the first surviving config
  for the first such pattern is written onto \<open>operation.outputFormat\<close>, and the configs
  are filtered to those with an entry accepted by the written format.
\<close>

theorem filterOutputFormatMatches_resolution:
  "(\<forall>fmt. outputFormat operation = Some fmt \<and> fmt \<noteq> [] \<longrightarrow>
      filterOutputFormatMatches acc operation ctx configs =
        (operation,
         if selectServicesForFormat acc fmt configs = []
         then Inl (UnsupportedOperation (formatFailureReason operation ctx))
         else Inr (selectServicesForFormat acc fmt configs)))
   \<and> (\<forall>patterns. \<not> truthy (outputFormat operation)
          \<and> requestedMimeTypes ctx = Some patterns \<and> patterns \<noteq> [] \<longrightarrow>
        (case spec_resolveFormat acc patterns configs of
           None \<Rightarrow>
             filterOutputFormatMatches acc operation ctx configs =
               (operation, Inl (UnsupportedOperation (formatFailureReason operation ctx)))
         | Some f \<Rightarrow>
             f \<noteq> [] \<and>
             filterOutputFormatMatches acc operation ctx configs =
               (operation\<lparr>outputFormat := Some f\<rparr>,
                if selectServicesForFormat acc f configs = []
                then Inl (UnsupportedOperation
                       (formatFailureReason (operation\<lparr>outputFormat := Some f\<rparr>) ctx))
                else Inr (selectServicesForFormat acc f configs))))"
proof (intro conjI allI impI)
  fix fmt
  assume a: "outputFormat operation = Some fmt \<and> fmt \<noteq> []"
  then have eq: "operation\<lparr>outputFormat := Some fmt\<rparr> = operation"
    by (metis operation.surjective operation.update_convs(2))
  from a show "filterOutputFormatMatches acc operation ctx configs =
        (operation,
         if selectServicesForFormat acc fmt configs = []
         then Inl (UnsupportedOperation (formatFailureReason operation ctx))
         else Inr (selectServicesForFormat acc fmt configs))"
    by (simp add: filterOutputFormatMatches_def selectFormat_def truthy_def eq)
next
  fix patterns
  assume a: "\<not> truthy (outputFormat operation)
          \<and> requestedMimeTypes ctx = Some patterns \<and> patterns \<noteq> []"
  then have h: "hasRequestedMimeTypes ctx" by (simp add: hasRequestedMimeTypes_def)
  from a have sf: "selectFormat acc operation ctx configs =
      selectFormat_loop acc patterns configs (outputFormat operation)"
    by (simp add: selectFormat_def h)
  from a selectFormat_loop_spec [of "outputFormat operation" acc patterns configs]
  have loop: "selectFormat_loop acc patterns configs (outputFormat operation) =
     (case spec_resolveFormat acc patterns configs of None \<Rightarrow> outputFormat operation | Some f \<Rightarrow> Some f)"
    and ne: "\<And>f. spec_resolveFormat acc patterns configs = Some f \<Longrightarrow> f \<noteq> []"
    by simp_all
  show "case spec_resolveFormat acc patterns configs of
           None \<Rightarrow>
             filterOutputFormatMatches acc operation ctx configs =
               (operation, Inl (UnsupportedOperation (formatFailureReason operation ctx)))
         | Some f \<Rightarrow>
             f \<noteq> [] \<and>
             filterOutputFormatMatches acc operation ctx configs =
               (operation\<lparr>outputFormat := Some f\<rparr>,
                if selectServicesForFormat acc f configs = []
                then Inl (UnsupportedOperation
                       (formatFailureReason (operation\<lparr>outputFormat := Some f\<rparr>) ctx))
                else Inr (selectServicesForFormat acc f configs))"
  proof (cases "spec_resolveFormat acc patterns configs")
    case None
    with a h sf loop show ?thesis
      by (auto simp: filterOutputFormatMatches_def truthy_def split: option.splits)
  next
    case (Some f)
    with a h sf loop ne [OF Some] show ?thesis
      by (simp add: filterOutputFormatMatches_def)
  qed
qed


theorem filterOutputFormatMatches_resolution_witness:
  "outputFormat pngRequest = Some ''image/png''
   \<and> filterOutputFormatMatches isMimeTypeAccepted pngRequest jsonContext [tiffSubsetter, pngReformatter]
       = (pngRequest, Inr [pngReformatter])
   \<and> \<not> truthy (outputFormat anyFormatRequest)
   \<and> requestedMimeTypes imageContext = Some [''text/csv'', ''image/*'']
   \<and> spec_resolveFormat isMimeTypeAccepted [''text/csv'', ''image/*''] [tiffSubsetter, pngReformatter]
       = Some ''image/tiff''
   \<and> filterOutputFormatMatches isMimeTypeAccepted anyFormatRequest imageContext
         [tiffSubsetter, pngReformatter]
       = (anyFormatRequest\<lparr>outputFormat := Some ''image/tiff''\<rparr>, Inr [tiffSubsetter])"
proof -
  have sel1: "selectServicesForFormat isMimeTypeAccepted ''image/png'' [tiffSubsetter, pngReformatter]
                = [pngReformatter]"
    by code_simp
  have sel2: "selectServicesForFormat isMimeTypeAccepted ''image/tiff'' [tiffSubsetter, pngReformatter]
                = [tiffSubsetter]"
    by code_simp
  have o1: "outputFormat pngRequest = Some ''image/png''"
    by (simp add: pngRequest_def)
  have o2: "\<not> truthy (outputFormat anyFormatRequest)"
    by (simp add: anyFormatRequest_def truthy_def)
  have r2: "requestedMimeTypes imageContext = Some [''text/csv'', ''image/*'']"
    by (simp add: imageContext_def)
  have sp: "spec_resolveFormat isMimeTypeAccepted [''text/csv'', ''image/*''] [tiffSubsetter, pngReformatter]
       = Some ''image/tiff''"
    by code_simp
  note R1 = filterOutputFormatMatches_resolution
              [of pngRequest isMimeTypeAccepted jsonContext "[tiffSubsetter, pngReformatter]"]
  note R2 = filterOutputFormatMatches_resolution
              [of anyFormatRequest isMimeTypeAccepted imageContext "[tiffSubsetter, pngReformatter]"]
  from R1 o1 have 1: "filterOutputFormatMatches isMimeTypeAccepted pngRequest jsonContext
        [tiffSubsetter, pngReformatter] = (pngRequest, Inr [pngReformatter])"
    by (simp add: sel1)
  from R2 o2 r2 have "case spec_resolveFormat isMimeTypeAccepted [''text/csv'', ''image/*'']
                 [tiffSubsetter, pngReformatter] of
           None \<Rightarrow>
             filterOutputFormatMatches isMimeTypeAccepted anyFormatRequest imageContext
               [tiffSubsetter, pngReformatter] =
               (anyFormatRequest, Inl (UnsupportedOperation (formatFailureReason anyFormatRequest imageContext)))
         | Some f \<Rightarrow>
             f \<noteq> [] \<and>
             filterOutputFormatMatches isMimeTypeAccepted anyFormatRequest imageContext
               [tiffSubsetter, pngReformatter] =
               (anyFormatRequest\<lparr>outputFormat := Some f\<rparr>,
                if selectServicesForFormat isMimeTypeAccepted f [tiffSubsetter, pngReformatter] = []
                then Inl (UnsupportedOperation
                       (formatFailureReason (anyFormatRequest\<lparr>outputFormat := Some f\<rparr>) imageContext))
                else Inr (selectServicesForFormat isMimeTypeAccepted f [tiffSubsetter, pngReformatter]))"
    by blast
  then have 2: "filterOutputFormatMatches isMimeTypeAccepted anyFormatRequest imageContext
         [tiffSubsetter, pngReformatter]
       = (anyFormatRequest\<lparr>outputFormat := Some ''image/tiff''\<rparr>, Inr [tiffSubsetter])"
    unfolding sp by (simp add: sel2)
  from o1 1 o2 r2 sp 2 show ?thesis by blast
qed

text \<open>
  C3 as stated fails: with \<open>outputFormat = image/png\<close> already set and
  \<open>application/json\<close> requested, the scan of the requested types would resolve
  \<open>application/json\<close>, while the format stage leaves \<open>image/png\<close> on the operation.
\<close>

theorem format_scan_skipped_counterexample:
  "outputFormat (fst (filterOutputFormatMatches isMimeTypeAccepted pngRequest jsonContext
                        [tiffSubsetter, pngReformatter])) = Some ''image/png''
   \<and> requestedMimeTypes jsonContext = Some [''application/json'']
   \<and> spec_resolveFormat isMimeTypeAccepted [''application/json''] [tiffSubsetter, pngReformatter]
       = Some ''application/json''"
  by code_simp

subsection \<open>The selected config supports the resolved format\<close>

lemma filterOutputFormatMatches_accepts:
  assumes "filterOutputFormatMatches acc operation ctx configs = (operation', Inr services)"
    and "outputFormat operation' = Some fmt" and "fmt \<noteq> []"
    and "s \<in> set services"
  shows "\<exists>f\<in>set (supportedFormats s). acc f fmt"
proof (cases "truthy (outputFormat operation) \<or> hasRequestedMimeTypes ctx")
  case True
  with assms(1) obtain f where f: "selectFormat acc operation ctx configs = Some f" "f \<noteq> []"
      "operation' = operation\<lparr>outputFormat := Some f\<rparr>"
      "services = selectServicesForFormat acc f configs"
    by (auto simp: filterOutputFormatMatches_def Let_def split: option.splits if_splits)
  with assms(2) have "fmt = f" by simp
  with selectServicesForFormat_member [of s acc f configs] assms(4) f(4)
  show ?thesis
    by (auto dest: find_Some_accepted)
next
  case False
  with assms(1) have "operation' = operation"
    by (auto simp: filterOutputFormatMatches_def Let_def split: if_splits)
  with False assms(2,3) show ?thesis
    by (simp add: truthy_def)
qed

text \<open>
  C1, as the code has it. When the three stages succeed (the selection does not fall back
  to the module's \<open>noOpService\<close>) and \<open>operation.outputFormat\<close> is set when
  \<open>forOperation\<close> returns, the config of the returned service has an entry in its
  output formats that is accepted by that format.
\<close>

theorem forOperation_selected_supports_outputFormat:
  assumes "forOperation acc ms operation ctx configsArg = (ms', operation', Inr svc)"
    and "snd (forOperation_try acc operation ctx (configsOrDefault ms configsArg)) = Inr services"
    and "outputFormat operation' = Some fmt" and "fmt \<noteq> []"
  shows "\<exists>f\<in>set (supportedFormats (service_config svc)). acc f fmt"
proof -
  obtain op1 where tr:
    "forOperation_try acc operation ctx (configsOrDefault ms configsArg) = (op1, Inr services)"
    using assms(2) by (cases "forOperation_try acc operation ctx (configsOrDefault ms configsArg)") simp
  from forOperation_try_Inr [OF tr] obtain s rest where s: "services = s # rest"
    by (cases services) auto
  from forOperation_selected [OF tr [unfolded s]] assms(1)
  have op1: "op1 = operation'" and b: "buildService s operation' = Inr svc"
    by simp_all
  from b have cfg: "service_config svc = s"
    by (auto simp: buildService_def split: classLookup.splits)
  from forOperation_try_cases [OF tr] obtain vm where
    "filterOutputFormatMatches acc operation ctx vm = (op1, Inr services)"
    by auto
  from filterOutputFormatMatches_accepts [OF this [unfolded op1] assms(3,4), of s] s cfg
  show ?thesis by simp
qed

theorem forOperation_selected_supports_outputFormat_witness:
  "forOperation isMimeTypeAccepted initialModule anyFormatRequest imageContext None =
     (initialModule, anyFormatRequest\<lparr>outputFormat := Some ''image/tiff''\<rparr>,
      Inr (Service LocalDockerService tiffSubsetter (anyFormatRequest\<lparr>outputFormat := Some ''image/tiff''\<rparr>)))
   \<and> snd (forOperation_try isMimeTypeAccepted anyFormatRequest imageContext
            (configsOrDefault initialModule None)) = Inr [tiffSubsetter]
   \<and> (\<exists>f\<in>set (supportedFormats tiffSubsetter). isMimeTypeAccepted f ''image/tiff'')"
proof -
  have e: "forOperation isMimeTypeAccepted initialModule anyFormatRequest imageContext None =
     (initialModule, anyFormatRequest\<lparr>outputFormat := Some ''image/tiff''\<rparr>,
      Inr (Service LocalDockerService tiffSubsetter (anyFormatRequest\<lparr>outputFormat := Some ''image/tiff''\<rparr>)))"
    by code_simp
  have t: "snd (forOperation_try isMimeTypeAccepted anyFormatRequest imageContext
            (configsOrDefault initialModule None)) = Inr [tiffSubsetter]"
    by code_simp
  have "\<exists>f\<in>set (supportedFormats (service_config
           (Service LocalDockerService tiffSubsetter (anyFormatRequest\<lparr>outputFormat := Some ''image/tiff''\<rparr>)))).
          isMimeTypeAccepted f ''image/tiff''"
    by (rule forOperation_selected_supports_outputFormat [OF e t]) simp_all
  with e t show ?thesis by simp
qed

text \<open>
  C1 as stated fails for the fallback: a request for \<open>image/png\<close> that no config can
  produce returns the module's \<open>noOpService\<close>, whose only output format is
  \<open>application/json\<close>, while \<open>operation.outputFormat\<close> is still \<open>image/png\<close>.
\<close>

theorem noOpService_ignores_outputFormat_counterexample:
  "forOperation isMimeTypeAccepted initialModule pngRequest noContext (Some [tiffSubsetter]) =
     (initialModule\<lparr>noOpService_message := Some (formatFailureReason pngRequest noContext)\<rparr>,
      pngRequest,
      Inr (Service NoOpService (noOpService (initialModule\<lparr>noOpService_message := Some (formatFailureReason pngRequest noContext)\<rparr>)) pngRequest))
   \<and> outputFormat pngRequest = Some ''image/png''
   \<and> supportedFormats (noOpService
         (initialModule\<lparr>noOpService_message := Some (formatFailureReason pngRequest noContext)\<rparr>))
       = [''application/json'']
   \<and> \<not> isMimeTypeAccepted ''application/json'' ''image/png''"
  by code_simp

subsection \<open>The combination diagnosis\<close>

lemma requiresVariableSubsetting_sources:
  "sources operation' = sources operation \<Longrightarrow>
   requiresVariableSubsetting operation' = requiresVariableSubsetting operation"
  by (simp add: requiresVariableSubsetting_def)

text \<open>A format stage that fails on a non-empty list had a format constraint.\<close>

lemma filterOutputFormatMatches_Inl_constraint:
  assumes "filterOutputFormatMatches acc operation ctx configs = (operation', Inl e)"
    and "configs \<noteq> []"
  shows "truthy (outputFormat operation') \<or> hasRequestedMimeTypes ctx"
  using assms
  by (auto simp: filterOutputFormatMatches_def Let_def truthy_def
           split: if_splits option.splits)

lemma rerun_under_constraint:
  assumes "truthy (outputFormat operation) \<or> hasRequestedMimeTypes ctx"
    and "filterCollectionMatches operation ctx configs = Inr matches"
  shows "(\<exists>services. rerunIgnoringSubsetting acc operation ctx configs = Inr services \<and> services \<noteq> [])
       \<longleftrightarrow> (\<exists>f. selectFormat acc operation ctx matches = Some f \<and> f \<noteq> []
                \<and> selectServicesForFormat acc f matches \<noteq> [])"
  using assms
  by (auto simp: rerunIgnoringSubsetting_def filterOutputFormatMatches_def Let_def
           split: option.splits if_splits)

lemma unsupportedCombinationMessage_format:
  assumes "requiresVariableSubsetting operation"
    and "truthy (outputFormat operation) \<or> hasRequestedMimeTypes ctx"
    and "filterCollectionMatches operation ctx configs = Inr matches"
  shows "unsupportedCombinationMessage acc operation ctx configs (formatFailureReason operation ctx) =
           Inr (if (\<exists>services. rerunIgnoringSubsetting acc operation ctx configs = Inr services
                      \<and> services \<noteq> [])
                then combinationReason operation ctx
                else formatFailureReason operation ctx)"
  unfolding rerun_under_constraint [OF assms(2,3)]
  using assms(1,3)
  by (auto simp: unsupportedCombinationMessage_def format_reason_is_format Let_def
           split: option.splits)

lemma requestedFormats_outputFormat:
  "outputFormat operation = Some f \<Longrightarrow> f \<noteq> [] \<Longrightarrow> requestedFormats operation ctx = f"
  by (simp add: requestedFormats_def)

lemma requestedFormats_requestedMimeTypes:
  assumes "\<not> truthy (outputFormat operation)" and "hasRequestedMimeTypes ctx"
  shows "\<exists>types. requestedMimeTypes ctx = Some types \<and> types \<noteq> []
           \<and> requestedFormats operation ctx = joinComma types"
  using assms
  by (auto simp: requestedFormats_def truthy_def hasRequestedMimeTypes_def split: option.splits)

lemma forOperation_diagnosis:
  assumes "requiresVariableSubsetting operation"
    and "filterCollectionMatches operation ctx (configsOrDefault ms configsArg) = Inr collectionMatches"
    and "filterVariableSubsettingMatches operation ctx collectionMatches = Inr varSubsetMatches"
    and "filterOutputFormatMatches acc operation ctx varSubsetMatches
           = (operation', Inl (UnsupportedOperation originalReason))"
  shows "\<exists>reason.
           reason = (if (\<exists>services. rerunIgnoringSubsetting acc operation' ctx
                                       (configsOrDefault ms configsArg) = Inr services
                           \<and> services \<noteq> [])
                     then combinationReason operation' ctx
                     else originalReason)
         \<and> originalReason =
               formatFailureReason operation' ctx
         \<and> (\<forall>f. outputFormat operation' = Some f \<and> f \<noteq> [] \<longrightarrow>
                requestedFormats operation' ctx = f)
         \<and> (\<not> truthy (outputFormat operation') \<longrightarrow>
                (\<exists>types. requestedMimeTypes ctx = Some types \<and> types \<noteq> []
                   \<and> requestedFormats operation' ctx = joinComma types))
         \<and> forOperation acc ms operation ctx configsArg =
             (ms\<lparr>noOpService_message := Some reason\<rparr>, operation',
              Inr (Service NoOpService (noOpService (ms\<lparr>noOpService_message := Some reason\<rparr>))
                     operation'))
         \<and> message (noOpService (ms\<lparr>noOpService_message := Some reason\<rparr>)) = Some reason"
proof -
  let ?configs = "configsOrDefault ms configsArg"
  let ?rerun = "\<exists>services. rerunIgnoringSubsetting acc operation' ctx ?configs = Inr services
                  \<and> services \<noteq> []"
  have tr: "forOperation_try acc operation ctx ?configs
              = (operation', Inl (UnsupportedOperation originalReason))"
    using assms(2,3,4) by (simp add: forOperation_try_def)
  have orig: "originalReason = formatFailureReason operation' ctx"
    using filterOutputFormatMatches_Inl [OF assms(4)] by simp
  have src: "sources operation' = sources operation"
    using filterOutputFormatMatches_sources [OF assms(4)] by auto
  have req: "requiresVariableSubsetting operation'"
    using requiresVariableSubsetting_sources [OF src] assms(1) by simp
  have cm: "filterCollectionMatches operation' ctx ?configs = Inr collectionMatches"
    using filterCollectionMatches_sources [OF src] assms(2) by simp
  have con: "truthy (outputFormat operation') \<or> hasRequestedMimeTypes ctx"
    using filterOutputFormatMatches_Inl_constraint [OF assms(4)]
      filterVariableSubsettingMatches_Inr [OF assms(3)] by simp
  define reason where
    "reason = (if ?rerun then combinationReason operation' ctx else originalReason)"
  have m: "unsupportedCombinationMessage acc operation' ctx ?configs originalReason = Inr reason"
    using unsupportedCombinationMessage_format [OF req con cm, of acc, folded orig]
    by (simp add: reason_def)
  note f = forOperation_fallback [OF tr m]
  have r1: "reason = (if ?rerun then combinationReason operation' ctx else originalReason)"
    by (simp add: reason_def)
  note r2 = orig
  have r3: "\<forall>f. outputFormat operation' = Some f \<and> f \<noteq> [] \<longrightarrow>
                requestedFormats operation' ctx = f"
    by (simp add: requestedFormats_outputFormat)
  have r4: "\<not> truthy (outputFormat operation') \<longrightarrow>
                (\<exists>types. requestedMimeTypes ctx = Some types \<and> types \<noteq> []
                   \<and> requestedFormats operation' ctx = joinComma types)"
    using con requestedFormats_requestedMimeTypes [of operation' ctx] by blast
  have r5: "message (noOpService (ms\<lparr>noOpService_message := Some reason\<rparr>)) = Some reason"
    by (simp add: noOpService_def)
  from r1 r2 r3 r4 f r5 show ?thesis by blast
qed

text \<open>
  C4. For an operation that requires variable subsetting and whose selection fails at
  the format stage, \<open>forOperation\<close> returns the \<open>noOpService\<close> as a \<open>NoOpService\<close>
  carrying a message. When the collection stage followed by the format stage, run on the
  full list for the operation as the failed stage left it, yields a non-empty list of
  services, the message is "none of the services support the combination of both
  variable subsetting and any of the requested formats", followed by the requested
  formats in brackets; otherwise it is the reason of the failed format stage, "none of
  the services configured for the collection support reformatting to any of the
  requested formats", followed by the same. The requested formats are the operation's
  output format when it is set, and otherwise the requested mime types joined by commas.
\<close>

theorem forOperation_combination_diagnosis:
  assumes "requiresVariableSubsetting operation"
    and "filterCollectionMatches operation ctx (configsOrDefault ms configsArg) = Inr collectionMatches"
    and "filterVariableSubsettingMatches operation ctx collectionMatches = Inr varSubsetMatches"
    and "filterOutputFormatMatches acc operation ctx varSubsetMatches
           = (operation', Inl (UnsupportedOperation originalReason))"
  shows "\<exists>reason.
           reason = (if (\<exists>services. rerunIgnoringSubsetting acc operation' ctx
                                       (configsOrDefault ms configsArg) = Inr services
                           \<and> services \<noteq> [])
                     then ''none of the services support the combination of both variable subsetting and any of the requested formats [''
                            @ requestedFormats operation' ctx @ '']''
                     else originalReason)
         \<and> originalReason =
               ''none of the services configured for the collection support reformatting to any of the requested formats [''
                 @ requestedFormats operation' ctx @ '']''
         \<and> (\<forall>f. outputFormat operation' = Some f \<and> f \<noteq> [] \<longrightarrow>
                requestedFormats operation' ctx = f)
         \<and> (\<not> truthy (outputFormat operation') \<longrightarrow>
                (\<exists>types. requestedMimeTypes ctx = Some types \<and> types \<noteq> []
                   \<and> requestedFormats operation' ctx = joinComma types))
         \<and> forOperation acc ms operation ctx configsArg =
             (ms\<lparr>noOpService_message := Some reason\<rparr>, operation',
              Inr (Service NoOpService (noOpService (ms\<lparr>noOpService_message := Some reason\<rparr>))
                     operation'))
         \<and> message (noOpService (ms\<lparr>noOpService_message := Some reason\<rparr>)) = Some reason"
  using forOperation_diagnosis [OF assms]
  unfolding formatFailureReason_text combinationReason_text .

theorem forOperation_combination_diagnosis_witness:
  "requiresVariableSubsetting pngVariableRequest
   \<and> filterOutputFormatMatches isMimeTypeAccepted pngVariableRequest noContext [tiffSubsetter]
       = (pngVariableRequest,
          Inl (UnsupportedOperation
                 ''none of the services configured for the collection support reformatting to any of the requested formats [image/png]''))
   \<and> rerunIgnoringSubsetting isMimeTypeAccepted pngVariableRequest noContext
         (configsOrDefault initialModule None) = Inr [pngReformatter]
   \<and> fst (forOperation isMimeTypeAccepted initialModule pngVariableRequest noContext None)
       = initialModule\<lparr>noOpService_message :=
           Some ''none of the services support the combination of both variable subsetting and any of the requested formats [image/png]''\<rparr>
   \<and> requiresVariableSubsetting gifVariableRequest
   \<and> rerunIgnoringSubsetting isMimeTypeAccepted gifVariableRequest noContext
         (configsOrDefault initialModule None)
       = Inl (UnsupportedOperation (formatFailureReason gifVariableRequest noContext))
   \<and> fst (forOperation isMimeTypeAccepted initialModule gifVariableRequest noContext None)
       = initialModule\<lparr>noOpService_message :=
           Some ''none of the services configured for the collection support reformatting to any of the requested formats [image/gif]''\<rparr>
   \<and> requiresVariableSubsetting variableAnyFormatRequest
   \<and> rerunIgnoringSubsetting isMimeTypeAccepted variableAnyFormatRequest pngGifContext
         (configsOrDefault initialModule None) = Inr [pngReformatter]
   \<and> fst (forOperation isMimeTypeAccepted initialModule variableAnyFormatRequest pngGifContext None)
       = initialModule\<lparr>noOpService_message :=
           Some ''none of the services support the combination of both variable subsetting and any of the requested formats [image/png,image/gif]''\<rparr>"
proof -
  have p1: "requiresVariableSubsetting pngVariableRequest" by code_simp
  have p2: "filterCollectionMatches pngVariableRequest noContext (configsOrDefault initialModule None)
              = Inr [tiffSubsetter, pngReformatter]" by code_simp
  have p3: "filterVariableSubsettingMatches pngVariableRequest noContext [tiffSubsetter, pngReformatter]
              = Inr [tiffSubsetter]" by code_simp
  have p4: "filterOutputFormatMatches isMimeTypeAccepted pngVariableRequest noContext [tiffSubsetter]
       = (pngVariableRequest,
          Inl (UnsupportedOperation
                 ''none of the services configured for the collection support reformatting to any of the requested formats [image/png]''))"
    by code_simp
  have p5: "rerunIgnoringSubsetting isMimeTypeAccepted pngVariableRequest noContext
         (configsOrDefault initialModule None) = Inr [pngReformatter]" by code_simp
  have p6: "requestedFormats pngVariableRequest noContext = ''image/png''" by code_simp
  have g1: "requiresVariableSubsetting gifVariableRequest" by code_simp
  have g2: "filterCollectionMatches gifVariableRequest noContext (configsOrDefault initialModule None)
              = Inr [tiffSubsetter, pngReformatter]" by code_simp
  have g3: "filterVariableSubsettingMatches gifVariableRequest noContext [tiffSubsetter, pngReformatter]
              = Inr [tiffSubsetter]" by code_simp
  have g4: "filterOutputFormatMatches isMimeTypeAccepted gifVariableRequest noContext [tiffSubsetter]
       = (gifVariableRequest,
          Inl (UnsupportedOperation
                 ''none of the services configured for the collection support reformatting to any of the requested formats [image/gif]''))"
    by code_simp
  have g5: "rerunIgnoringSubsetting isMimeTypeAccepted gifVariableRequest noContext
         (configsOrDefault initialModule None)
       = Inl (UnsupportedOperation (formatFailureReason gifVariableRequest noContext))" by code_simp
  have v1: "requiresVariableSubsetting variableAnyFormatRequest" by code_simp
  have v2: "filterCollectionMatches variableAnyFormatRequest pngGifContext
              (configsOrDefault initialModule None) = Inr [tiffSubsetter, pngReformatter]"
    by code_simp
  have v3: "filterVariableSubsettingMatches variableAnyFormatRequest pngGifContext
              [tiffSubsetter, pngReformatter] = Inr [tiffSubsetter]" by code_simp
  have v4: "filterOutputFormatMatches isMimeTypeAccepted variableAnyFormatRequest pngGifContext
              [tiffSubsetter]
       = (variableAnyFormatRequest,
          Inl (UnsupportedOperation
                 ''none of the services configured for the collection support reformatting to any of the requested formats [image/png,image/gif]''))"
    by code_simp
  have v5: "rerunIgnoringSubsetting isMimeTypeAccepted variableAnyFormatRequest pngGifContext
         (configsOrDefault initialModule None) = Inr [pngReformatter]" by code_simp
  have v6: "requestedFormats variableAnyFormatRequest pngGifContext = ''image/png,image/gif''"
    by code_simp
  from forOperation_combination_diagnosis [OF p1 p2 p3 p4, unfolded p5 p6]
  have a: "fst (forOperation isMimeTypeAccepted initialModule pngVariableRequest noContext None)
       = initialModule\<lparr>noOpService_message :=
           Some ''none of the services support the combination of both variable subsetting and any of the requested formats [image/png]''\<rparr>"
    by auto
  from forOperation_combination_diagnosis [OF g1 g2 g3 g4, unfolded g5]
  have b: "fst (forOperation isMimeTypeAccepted initialModule gifVariableRequest noContext None)
       = initialModule\<lparr>noOpService_message :=
           Some ''none of the services configured for the collection support reformatting to any of the requested formats [image/gif]''\<rparr>"
    by auto
  from forOperation_combination_diagnosis [OF v1 v2 v3 v4, unfolded v5 v6]
  have c: "fst (forOperation isMimeTypeAccepted initialModule variableAnyFormatRequest pngGifContext None)
       = initialModule\<lparr>noOpService_message :=
           Some ''none of the services support the combination of both variable subsetting and any of the requested formats [image/png,image/gif]''\<rparr>"
    by auto
  from p1 p4 p5 a g1 g5 b v1 v5 c show ?thesis by blast
qed

subsection \<open>What a call writes\<close>

lemma forOperation_ignores_old_message:
  "snd (forOperation acc (ms\<lparr>noOpService_message := m\<rparr>) operation ctx configsArg)
     = snd (forOperation acc ms operation ctx configsArg)"
  by (auto simp: forOperation_def configsOrDefault_def noOpService_def Let_def
        split: prod.splits sum.splits error.splits list.splits option.splits)

text \<open>
  C5, as the code has it. A call of \<open>forOperation\<close> writes at most two things: the
  \<open>outputFormat\<close> of the operation, and the \<open>message\<close> of the module-level
  \<open>noOpService\<close> object. Every other field of the operation (the record extension
  included) and the module's \<open>serviceConfigs\<close> are as before; when the stages succeed
  the module state is not written at all. The context and the list of configs are only
  read: no function of the module assigns to them, and the model passes them as values.
  And the message an earlier call left behind has no influence on a later call: from any
  such state the same operation and the same result come out.
\<close>

theorem forOperation_frame:
  assumes "forOperation acc ms operation ctx configsArg = (ms', operation', result)"
  shows "operation' = operation\<lparr>outputFormat := outputFormat operation'\<rparr>
       \<and> ms' = ms\<lparr>noOpService_message := noOpService_message ms'\<rparr>
       \<and> serviceConfigs ms' = serviceConfigs ms
       \<and> ((\<exists>services. snd (forOperation_try acc operation ctx (configsOrDefault ms configsArg))
                          = Inr services) \<longrightarrow> ms' = ms)
       \<and> (\<forall>m. snd (forOperation acc (ms\<lparr>noOpService_message := m\<rparr>) operation ctx configsArg)
                = (operation', result))"
proof -
  obtain op1 outcome where tr:
    "forOperation_try acc operation ctx (configsOrDefault ms configsArg) = (op1, outcome)"
    by (cases "forOperation_try acc operation ctx (configsOrDefault ms configsArg)")
  from forOperation_try_sources [OF tr] obtain f where f: "op1 = operation\<lparr>outputFormat := f\<rparr>"
    by blast
  have ops: "op1 = operation\<lparr>outputFormat := outputFormat op1\<rparr>"
    by (subst f) (simp add: f)
  have later: "\<forall>m. snd (forOperation acc (ms\<lparr>noOpService_message := m\<rparr>) operation ctx configsArg)
                = (operation', result)"
    using assms by (simp add: forOperation_ignores_old_message)
  have writes: "operation' = operation\<lparr>outputFormat := outputFormat operation'\<rparr>
       \<and> ms' = ms\<lparr>noOpService_message := noOpService_message ms'\<rparr>
       \<and> serviceConfigs ms' = serviceConfigs ms
       \<and> ((\<exists>services. snd (forOperation_try acc operation ctx (configsOrDefault ms configsArg))
                          = Inr services) \<longrightarrow> ms' = ms)"
  proof (cases outcome)
    case (Inl e)
    from forOperation_try_Inl [OF tr [unfolded Inl]]
    obtain e_message reason where e: "e = UnsupportedOperation e_message"
      and r: "unsupportedCombinationMessage acc op1 ctx (configsOrDefault ms configsArg) e_message
                = Inr reason"
      by blast
    from forOperation_fallback [OF tr [unfolded Inl e] r] assms
    have "ms' = ms\<lparr>noOpService_message := Some reason\<rparr>" and "operation' = op1"
      by simp_all
    with ops tr Inl show ?thesis by simp
  next
    case (Inr services)
    with forOperation_try_Inr [OF tr [unfolded Inr]] obtain s rest where s: "services = s # rest"
      by (cases services) auto
    from forOperation_selected [OF tr [unfolded Inr s]] assms
    have "ms' = ms" and "operation' = op1"
      by simp_all
    with ops show ?thesis by simp
  qed
  from writes later show ?thesis by blast
qed

theorem forOperation_frame_witness:
  "forOperation isMimeTypeAccepted initialModule anyFormatRequest imageContext None =
     (initialModule, anyFormatRequest\<lparr>outputFormat := Some ''image/tiff''\<rparr>,
      buildService tiffSubsetter (anyFormatRequest\<lparr>outputFormat := Some ''image/tiff''\<rparr>))
   \<and> snd (forOperation_try isMimeTypeAccepted anyFormatRequest imageContext
            (configsOrDefault initialModule None)) = Inr [tiffSubsetter]
   \<and> anyFormatRequest\<lparr>outputFormat := Some ''image/tiff''\<rparr>
       = anyFormatRequest\<lparr>outputFormat :=
           outputFormat (anyFormatRequest\<lparr>outputFormat := Some ''image/tiff''\<rparr>)\<rparr>
   \<and> initialModule = initialModule\<lparr>noOpService_message := noOpService_message initialModule\<rparr>"
proof -
  have e: "forOperation isMimeTypeAccepted initialModule anyFormatRequest imageContext None =
     (initialModule, anyFormatRequest\<lparr>outputFormat := Some ''image/tiff''\<rparr>,
      buildService tiffSubsetter (anyFormatRequest\<lparr>outputFormat := Some ''image/tiff''\<rparr>))"
    by code_simp
  have t: "snd (forOperation_try isMimeTypeAccepted anyFormatRequest imageContext
            (configsOrDefault initialModule None)) = Inr [tiffSubsetter]"
    by code_simp
  from forOperation_frame [OF e] e t show ?thesis by blast
qed

text \<open>
  C5 as stated fails: a call whose selection falls back assigns
  \<open>noOpService.message\<close>, so the module-level state after the call differs from the
  state before it.
\<close>

theorem forOperation_writes_noOpService_counterexample:
  "noOpService_message initialModule = None
   \<and> noOpService_message
         (fst (forOperation isMimeTypeAccepted initialModule unknownCollectionRequest noContext None))
       = Some collectionFailureReason"
  by code_simp

section \<open>Properties of the callback handler\<close>

subsection \<open>Unknown request id\<close>

text \<open>
  C7. A callback whose request id matches no persisted job rolls the transaction back,
  answers 404 with a \<open>{code, message}\<close> body, uploads nothing and leaves every stored
  job as it was.
\<close>

theorem responseHandler_unknown_job:
  assumes "persisted db (req_requestId req) = None"
  shows "responseHandler env db req =
           \<lparr>database = db\<lparr>trx := TrxRolledBack, pending := []\<rparr>, uploads = [],
            res_status = Some 404,
            res_body = Some (SendJson 404 ''could not find a job with the given ID''),
            handled_job = None\<rparr>
         \<and> persisted (database (responseHandler env db req)) = persisted db"
  using assms
  by (simp add: responseHandler_def byRequestId_def db_transaction_def rollback_def)

theorem responseHandler_unknown_job_witness:
  "persisted exampleDb ''req-9'' = None
   \<and> res_status (responseHandler exampleEnv exampleDb
         \<lparr>req_requestId = ''req-9'', req_query = emptyQuery, req_headers = bodyHeaders\<rparr>)
       = Some 404
   \<and> res_body (responseHandler exampleEnv exampleDb
         \<lparr>req_requestId = ''req-9'', req_query = emptyQuery, req_headers = bodyHeaders\<rparr>)
       = Some (SendJson 404 ''could not find a job with the given ID'')
   \<and> trx (database (responseHandler exampleEnv exampleDb
         \<lparr>req_requestId = ''req-9'', req_query = emptyQuery, req_headers = bodyHeaders\<rparr>))
       = TrxRolledBack
   \<and> persisted (database (responseHandler exampleEnv exampleDb
         \<lparr>req_requestId = ''req-9'', req_query = emptyQuery, req_headers = bodyHeaders\<rparr>))
       = exampleJobs"
proof -
  let ?req = "\<lparr>req_requestId = ''req-9'', req_query = emptyQuery, req_headers = bodyHeaders\<rparr>"
  have n: "persisted exampleDb (req_requestId ?req) = None"
    by (simp add: exampleDb_def exampleJobs_def)
  have p: "persisted exampleDb = exampleJobs"
    by (simp add: exampleDb_def)
  from responseHandler_unknown_job [of exampleDb ?req exampleEnv, OF n] n p
  show ?thesis by simp
qed

subsection \<open>A file body for a job without a staging link\<close>

lemma errorStatus_JsTypeError: "errorStatus (JsTypeError m) = 400"
  by (simp add: errorStatus_def)

lemma errorStatus_RequestValidationError: "errorStatus (RequestValidationError m) = 400"
  by (simp add: errorStatus_def)

text \<open>
  C10. For a callback with a file body (no \<open>item.href\<close>, no \<open>error\<close>, a content
  length other than \<open>0\<close>) on a job without an \<open>s3-access\<close> link, reading the first such
  link fails with a \<open>TypeError\<close> that the handler catches: the transaction is rolled
  back, the response status is 400, nothing is uploaded and no stored job changes.
\<close>

theorem responseHandler_missing_staging_link:
  assumes "persisted db (req_requestId req) = Some job"
    and "hasFileBody req"
    and "getRelatedLinks ''s3-access'' job = []"
  shows "\<exists>m. responseHandler env db req =
           \<lparr>database = db\<lparr>trx := TrxRolledBack, pending := []\<rparr>, uploads = [],
            res_status = Some 400, res_body = Some (SendJson 400 m),
            handled_job = Some job\<rparr>
         \<and> stageBody env job req = ([], Inl (JsTypeError m))"
  using assms
  by (simp add: responseHandler_def responseHandler_try_def stageBody_def errorStatus_JsTypeError
        byRequestId_def db_transaction_def rollback_def)

theorem responseHandler_missing_staging_link_witness:
  "persisted exampleDb ''req-2'' = Some unstagedJob
   \<and> hasFileBody \<lparr>req_requestId = ''req-2'', req_query = emptyQuery, req_headers = bodyHeaders\<rparr>
   \<and> getRelatedLinks ''s3-access'' unstagedJob = []
   \<and> res_status (responseHandler exampleEnv exampleDb
         \<lparr>req_requestId = ''req-2'', req_query = emptyQuery, req_headers = bodyHeaders\<rparr>) = Some 400
   \<and> trx (database (responseHandler exampleEnv exampleDb
         \<lparr>req_requestId = ''req-2'', req_query = emptyQuery, req_headers = bodyHeaders\<rparr>))
       = TrxRolledBack
   \<and> persisted (database (responseHandler exampleEnv exampleDb
         \<lparr>req_requestId = ''req-2'', req_query = emptyQuery, req_headers = bodyHeaders\<rparr>))
       = exampleJobs"
proof -
  let ?req = "\<lparr>req_requestId = ''req-2'', req_query = emptyQuery, req_headers = bodyHeaders\<rparr>"
  have j: "persisted exampleDb (req_requestId ?req) = Some unstagedJob"
    by (simp add: exampleDb_def exampleJobs_def)
  have b: "hasFileBody ?req"
    by (simp add: hasFileBody_def emptyQuery_def bodyHeaders_def truthy_def)
  have l: "getRelatedLinks ''s3-access'' unstagedJob = []"
    by (simp add: getRelatedLinks_def unstagedJob_def)
  have p: "persisted exampleDb = exampleJobs"
    by (simp add: exampleDb_def)
  from responseHandler_missing_staging_link [of exampleDb ?req unstagedJob exampleEnv, OF j b l]
  obtain m where "responseHandler exampleEnv exampleDb ?req =
           \<lparr>database = exampleDb\<lparr>trx := TrxRolledBack, pending := []\<rparr>, uploads = [],
            res_status = Some 400, res_body = Some (SendJson 400 m),
            handled_job = Some unstagedJob\<rparr>"
    by blast
  with j b l p show ?thesis by simp
qed

subsection \<open>Validation of a callback item\<close>

lemma list_ex_None_map:
  "list_ex (\<lambda>v. v = None) (map f xs) = (\<not> list_all (\<lambda>x. f x \<noteq> None) xs)"
  by (induction xs) auto

lemma parseBbox_fourFloats:
  "parseBbox env s =
     (if fourFloats env s then Inr (map (\<lambda>part. the (parseFloat env part)) (splitComma s))
      else Inl (JsTypeError bboxMessage))"
  by (simp add: parseBbox_def fourFloats_def Let_def list_ex_None_map comp_def)

lemma parseTemporal_twoTimestamps:
  "parseTemporal env s =
     (if twoTimestamps env s
      then Inr (toISOString env (the (Date_parse env (splitComma s ! 0))),
                toISOString env (the (Date_parse env (splitComma s ! 1))))
      else Inl (JsTypeError temporalMessage))"
proof (cases "splitComma s")
  case Nil
  then show ?thesis by (simp add: parseTemporal_def twoTimestamps_def)
next
  case (Cons a as)
  note outer = this
  show ?thesis
  proof (cases as)
    case Nil
    with outer show ?thesis
      by (simp add: parseTemporal_def twoTimestamps_def split: option.splits)
  next
    case (Cons b bs)
    with outer show ?thesis
      by (cases bs) (auto simp: parseTemporal_def twoTimestamps_def split: option.splits)
  qed
qed

lemma linkFromItem_cases:
  "linkFromItem env item =
     (if \<exists>s. item_bbox item = Some s \<and> s \<noteq> [] \<and> \<not> fourFloats env s
      then Inl (JsTypeError bboxMessage)
      else if \<exists>s. item_temporal item = Some s \<and> s \<noteq> [] \<and> \<not> twoTimestamps env s
      then Inl (JsTypeError temporalMessage)
      else Inr (spec_storedLink env item))"
  by (auto simp: linkFromItem_def spec_storedLink_def parseBbox_fourFloats
        parseTemporal_twoTimestamps truthy_def Let_def split: option.splits)

lemma updateJobFields_item_error:
  assumes "query_item query = Some item" and "linkFromItem env item = Inl (JsTypeError m)"
  shows "updateJobFields env job query = (job, Inl (RequestValidationError m))"
  using assms by (simp add: updateJobFields_def updateJobFields_try_def)

lemma updateJobFields_item_stored:
  assumes "query_item query = Some item" and "linkFromItem env item = Inr link"
  shows "prefix (job_links job @ [link]) (job_links (fst (updateJobFields env job query)))"
  using assms
  by (auto simp: updateJobFields_def updateJobFields_try_def addLink_def fail_def succeed_def
        updateStatus_def Let_def split: option.splits sum.splits prod.splits if_splits)


text \<open>
  C8, as the code has it. For an item whose \<open>bbox\<close> is a non-empty string that does
  not split on commas into exactly 4 float-parsable parts, \<open>updateJobFields\<close> raises a
  validation error and leaves the job as it was. When the \<open>bbox\<close> is absent, empty or
  valid, a non-empty \<open>temporal\<close> that does not parse to exactly 2 timestamps raises a
  validation error likewise. When both are absent, empty or valid, the link is added to
  the job with the 4 parsed floats as its \<open>bbox\<close>, the two ISO timestamps as its
  \<open>temporal\<close>, and \<open>rel\<close> defaulting to \<open>data\<close>. A validation error has status 400.
\<close>

theorem updateJobFields_item_validation:
  assumes "query_item query = Some item"
  shows "(\<forall>s. item_bbox item = Some s \<and> s \<noteq> [] \<and> \<not> fourFloats env s \<longrightarrow>
            updateJobFields env job query = (job, Inl (RequestValidationError bboxMessage)))
       \<and> (\<forall>s. item_temporal item = Some s \<and> s \<noteq> [] \<and> \<not> twoTimestamps env s
              \<and> (\<forall>b. item_bbox item = Some b \<and> b \<noteq> [] \<longrightarrow> fourFloats env b) \<longrightarrow>
            updateJobFields env job query = (job, Inl (RequestValidationError temporalMessage)))
       \<and> ((\<forall>b. item_bbox item = Some b \<and> b \<noteq> [] \<longrightarrow> fourFloats env b)
            \<and> (\<forall>t. item_temporal item = Some t \<and> t \<noteq> [] \<longrightarrow> twoTimestamps env t) \<longrightarrow>
            linkFromItem env item = Inr (spec_storedLink env item)
            \<and> prefix (job_links job @ [spec_storedLink env item])
                  (job_links (fst (updateJobFields env job query))))
       \<and> errorStatus (RequestValidationError bboxMessage) = 400
       \<and> errorStatus (RequestValidationError temporalMessage) = 400"
proof (intro conjI allI impI)
  fix s
  assume "item_bbox item = Some s \<and> s \<noteq> [] \<and> \<not> fourFloats env s"
  then have "linkFromItem env item = Inl (JsTypeError bboxMessage)"
    by (auto simp: linkFromItem_cases)
  from updateJobFields_item_error [OF assms this]
  show "updateJobFields env job query = (job, Inl (RequestValidationError bboxMessage))" .
next
  fix s
  assume "item_temporal item = Some s \<and> s \<noteq> [] \<and> \<not> twoTimestamps env s
              \<and> (\<forall>b. item_bbox item = Some b \<and> b \<noteq> [] \<longrightarrow> fourFloats env b)"
  then have "linkFromItem env item = Inl (JsTypeError temporalMessage)"
    by (auto simp: linkFromItem_cases)
  from updateJobFields_item_error [OF assms this]
  show "updateJobFields env job query = (job, Inl (RequestValidationError temporalMessage))" .
next
  assume ok: "(\<forall>b. item_bbox item = Some b \<and> b \<noteq> [] \<longrightarrow> fourFloats env b)
            \<and> (\<forall>t. item_temporal item = Some t \<and> t \<noteq> [] \<longrightarrow> twoTimestamps env t)"
  then show l: "linkFromItem env item = Inr (spec_storedLink env item)"
    by (auto simp: linkFromItem_cases)
  from updateJobFields_item_stored [OF assms l]
  show "prefix (job_links job @ [spec_storedLink env item])
                  (job_links (fst (updateJobFields env job query)))" .
qed (simp_all add: errorStatus_RequestValidationError)

theorem updateJobFields_item_validation_witness:
  "\<not> fourFloats exampleEnv ''10,20,30''
   \<and> updateJobFields exampleEnv syncJob (itemQuery shortBboxItem)
       = (syncJob, Inl (RequestValidationError bboxMessage))
   \<and> fourFloats exampleEnv ''10,20,30,40''
   \<and> \<not> twoTimestamps exampleEnv ''2020-01-01T00:00:00Z''
   \<and> updateJobFields exampleEnv syncJob (itemQuery oneDateItem)
       = (syncJob, Inl (RequestValidationError temporalMessage))
   \<and> twoTimestamps exampleEnv ''2020-01-01T00:00:00Z,2020-01-02T00:00:00Z''
   \<and> link_bbox (spec_storedLink exampleEnv validItem) = Some [10, 20, 30, 40]
   \<and> link_temporal (spec_storedLink exampleEnv validItem)
       = Some (''2020-01-01T00:00:00.000Z'', ''2020-01-02T00:00:00.000Z'')
   \<and> link_rel (spec_storedLink exampleEnv validItem) = Some ''data''
   \<and> prefix (job_links syncJob @ [spec_storedLink exampleEnv validItem])
         (job_links (fst (updateJobFields exampleEnv syncJob (itemQuery validItem))))"
proof -
  have f3: "\<not> fourFloats exampleEnv ''10,20,30''" by code_simp
  have f4: "fourFloats exampleEnv ''10,20,30,40''" by code_simp
  have t1: "\<not> twoTimestamps exampleEnv ''2020-01-01T00:00:00Z''" by code_simp
  have t2: "twoTimestamps exampleEnv ''2020-01-01T00:00:00Z,2020-01-02T00:00:00Z''" by code_simp
  have q: "\<And>item. query_item (itemQuery item) = Some item"
    by (simp add: itemQuery_def)
  have s1: "item_bbox shortBboxItem = Some ''10,20,30''"
    by (simp add: shortBboxItem_def)
  have o1: "item_bbox oneDateItem = Some ''10,20,30,40''"
    and o2: "item_temporal oneDateItem = Some ''2020-01-01T00:00:00Z''"
    by (simp_all add: oneDateItem_def)
  have v1: "item_bbox validItem = Some ''10,20,30,40''"
    and v2: "item_temporal validItem = Some ''2020-01-01T00:00:00Z,2020-01-02T00:00:00Z''"
    by (simp_all add: validItem_def)
  note A = updateJobFields_item_validation [OF q, of shortBboxItem exampleEnv syncJob]
  note B = updateJobFields_item_validation [OF q, of oneDateItem exampleEnv syncJob]
  note C = updateJobFields_item_validation [OF q, of validItem exampleEnv syncJob]
  from A s1 f3 have a: "updateJobFields exampleEnv syncJob (itemQuery shortBboxItem)
       = (syncJob, Inl (RequestValidationError bboxMessage))"
    by simp
  from B o1 o2 f4 t1 have b: "updateJobFields exampleEnv syncJob (itemQuery oneDateItem)
       = (syncJob, Inl (RequestValidationError temporalMessage))"
    by simp
  from C v1 v2 f4 t2 have c: "prefix (job_links syncJob @ [spec_storedLink exampleEnv validItem])
         (job_links (fst (updateJobFields exampleEnv syncJob (itemQuery validItem))))"
    by simp
  have d: "link_bbox (spec_storedLink exampleEnv validItem) = Some [10, 20, 30, 40]"
    "link_temporal (spec_storedLink exampleEnv validItem)
       = Some (''2020-01-01T00:00:00.000Z'', ''2020-01-02T00:00:00.000Z'')"
    "link_rel (spec_storedLink exampleEnv validItem) = Some ''data''"
    by code_simp+
  from f3 a f4 t1 b t2 d c show ?thesis by blast
qed

text \<open>
  C8 as stated fails in two ways. An item carrying the empty string as \<open>bbox\<close> is
  accepted without a validation error, although the empty string does not split into 4
  float-parsable parts; its link is stored without a \<open>bbox\<close>. And an item whose
  \<open>bbox\<close> does split into 4 float-parsable parts is not stored when its \<open>temporal\<close>
  is rejected.
\<close>

theorem empty_bbox_accepted_counterexample:
  "\<not> fourFloats exampleEnv []
   \<and> item_bbox emptyBboxItem = Some []
   \<and> updateJobFields exampleEnv syncJob (itemQuery emptyBboxItem)
       = (syncJob\<lparr>job_links :=
            [stagingLink,
             \<lparr>link_href = None, link_type = None, link_rel = Some ''data'', link_title = None,
              link_bbox = None, link_temporal = None\<rparr>]\<rparr>, Inr ())
   \<and> fourFloats exampleEnv ''10,20,30,40''
   \<and> item_bbox oneDateItem = Some ''10,20,30,40''
   \<and> updateJobFields exampleEnv syncJob (itemQuery oneDateItem)
       = (syncJob, Inl (RequestValidationError temporalMessage))"
  by code_simp

subsection \<open>Progress\<close>







subsection \<open>A file body for a synchronous job\<close>

lemma updateJobFields_status_successful:
  assumes "\<not> truthy (query_error query)" and "query_status query = Some ''successful''"
    and "updateJobFields env job query = (job', Inr ())"
  shows "job_status job' = Successful"
  using assms
  by (auto simp: updateJobFields_def updateJobFields_try_def updateStatus_def
        jobStatus_of_string_def truthy_def Let_def
        split: option.splits sum.splits prod.splits if_splits)

text \<open>
  C6, as the code has it. For a callback with a file body on a job with
  \<open>isAsync = false\<close>, provided the job has an \<open>s3-access\<close> link with a location, the
  object store is obtained, a file name comes from the \<open>Content-Disposition\<close> header or
  \<open>item[title]\<close>, the upload succeeds, the merged fields pass \<open>updateJobFields\<close>, and
  the save and the commit succeed: the body is uploaded once, to the location followed by
  the file name, the transaction is committed, the response is 200, and the stored job's
  status is successful.
\<close>

theorem responseHandler_sync_body:
  assumes "persisted db (req_requestId req) = Some job"
    and "\<not> job_isAsync job"
    and "hasFileBody req"
    and "getRelatedLinks ''s3-access'' job = first # others"
    and "link_href first = Some location"
    and "objectStoreForProtocol env (Some location) = None"
    and "stagedFilename req = Some filename" and "filename \<noteq> []"
    and "content_length (req_headers req) = Some len"
    and "store_upload env (location @ filename) len (stagedType req) = None"
    and "updateJobFields env job
           (mergeFields (req_query req)
              (Some \<lparr>item_href = Some (location @ filename), item_type = stagedType req,
                     item_rel = None, item_title = None, item_temporal = None,
                     item_bbox = None\<rparr>,
               Some ''successful'')) = (job', Inr ())"
    and "job_save env job' = None"
    and "trx_commit env = None"
  shows "responseHandler env db req =
           \<lparr>database = \<lparr>persisted = (persisted db)(req_requestId req \<mapsto> job'),
                        trx = TrxCommitted, pending = []\<rparr>,
            uploads = [(location @ filename, len, stagedType req)],
            res_status = Some 200, res_body = Some (SendText ''Ok''),
            handled_job = Some job'\<rparr>
         \<and> job_status job' = Successful"
proof -
  let ?over = "(Some \<lparr>item_href = Some (location @ filename), item_type = stagedType req,
                     item_rel = None, item_title = None, item_temporal = None,
                     item_bbox = None\<rparr>, Some ''successful'')"
  let ?db = "db_transaction db"
  have st: "stageBody env job req = ([(location @ filename, len, stagedType req)], Inr ?over)"
    using assms(2-10) by (simp add: stageBody_def Let_def)
  have tr: "responseHandler_try env ?db job req
              = (commit (save (req_requestId req) job' ?db), job',
                 [(location @ filename, len, stagedType req)], Inr ())"
    using st assms(11-13) by (simp add: responseHandler_try_def)
  have db: "commit (save (req_requestId req) job' ?db)
              = \<lparr>persisted = (persisted db)(req_requestId req \<mapsto> job'),
                 trx = TrxCommitted, pending = []\<rparr>"
    by (simp add: commit_def save_def db_transaction_def)
  have e: "\<not> truthy (query_error (mergeFields (req_query req) ?over))"
    using assms(3) by (simp add: hasFileBody_def mergeFields_def)
  have s: "query_status (mergeFields (req_query req) ?over) = Some ''successful''"
    by (simp add: mergeFields_def)
  from updateJobFields_status_successful [OF e s assms(11)]
  have "job_status job' = Successful" .
  with tr db assms(1) show ?thesis
    by (simp add: responseHandler_def byRequestId_def db_transaction_def)
qed

theorem responseHandler_sync_body_witness:
  "persisted exampleDb ''req-1'' = Some syncJob \<and> \<not> job_isAsync syncJob
   \<and> hasFileBody (request1 emptyQuery bodyHeaders)
   \<and> stagedFilename (request1 emptyQuery bodyHeaders) = Some ''out.tif''
   \<and> uploads (responseHandler exampleEnv exampleDb (request1 emptyQuery bodyHeaders))
       = [(''s3://staging/job-1/out.tif'', ''1024'', Some ''image/tiff'')]
   \<and> map_option job_status
         (persisted (database (responseHandler exampleEnv exampleDb (request1 emptyQuery bodyHeaders)))
            ''req-1'')
       = Some Successful
   \<and> trx (database (responseHandler exampleEnv exampleDb (request1 emptyQuery bodyHeaders)))
       = TrxCommitted
   \<and> res_status (responseHandler exampleEnv exampleDb (request1 emptyQuery bodyHeaders)) = Some 200"
proof -
  let ?req = "request1 emptyQuery bodyHeaders"
  let ?job' = "syncJob\<lparr>job_links :=
                 [stagingLink,
                  \<lparr>link_href = Some ''s3://staging/job-1/out.tif'', link_type = Some ''image/tiff'',
                   link_rel = Some ''data'', link_title = None, link_bbox = None,
                   link_temporal = None\<rparr>],
               job_status := Successful\<rparr>"
  have r: "req_requestId ?req = ''req-1''" by (simp add: request1_def)
  have h1: "persisted exampleDb (req_requestId ?req) = Some syncJob"
    by (simp add: exampleDb_def exampleJobs_def request1_def)
  have h2: "\<not> job_isAsync syncJob" by (simp add: syncJob_def)
  have h3: "hasFileBody ?req" by code_simp
  have h4: "getRelatedLinks ''s3-access'' syncJob = stagingLink # []" by code_simp
  have h5: "link_href stagingLink = Some ''s3://staging/job-1/''" by (simp add: stagingLink_def)
  have h6: "objectStoreForProtocol exampleEnv (Some ''s3://staging/job-1/'') = None"
    by (simp add: exampleEnv_def)
  have h7: "stagedFilename ?req = Some ''out.tif''" by code_simp
  have h8: "''out.tif'' \<noteq> []" by simp
  have h9: "content_length (req_headers ?req) = Some ''1024''"
    by (simp add: bodyHeaders_def request1_def)
  have h10: "store_upload exampleEnv (''s3://staging/job-1/'' @ ''out.tif'') ''1024'' (stagedType ?req)
               = None"
    by (simp add: exampleEnv_def)
  have h11: "updateJobFields exampleEnv syncJob
           (mergeFields (req_query ?req)
              (Some \<lparr>item_href = Some (''s3://staging/job-1/'' @ ''out.tif''),
                     item_type = stagedType ?req,
                     item_rel = None, item_title = None, item_temporal = None,
                     item_bbox = None\<rparr>,
               Some ''successful'')) = (?job', Inr ())"
    by code_simp
  have h12: "job_save exampleEnv ?job' = None" by (simp add: exampleEnv_def)
  have h13: "trx_commit exampleEnv = None" by (simp add: exampleEnv_def)
  have ty: "stagedType ?req = Some ''image/tiff''" by code_simp
  from responseHandler_sync_body
         [of exampleDb ?req syncJob stagingLink "[]" "''s3://staging/job-1/''" exampleEnv
             "''out.tif''" "''1024''" ?job',
          OF h1 h2 h3 h4 h5 h6 h7 h8 h9 h10 h11 h12 h13]
  have "responseHandler exampleEnv exampleDb ?req =
           \<lparr>database = \<lparr>persisted = (persisted exampleDb)(req_requestId ?req \<mapsto> ?job'),
                        trx = TrxCommitted, pending = []\<rparr>,
            uploads = [(''s3://staging/job-1/'' @ ''out.tif'', ''1024'', stagedType ?req)],
            res_status = Some 200, res_body = Some (SendText ''Ok''),
            handled_job = Some ?job'\<rparr>"
    by blast
  with h1 h2 h3 h7 ty r show ?thesis by simp
qed

text \<open>
  C6 as stated fails: a callback with a file body on a synchronous job that names no
  file (no \<open>Content-Disposition\<close> header, no \<open>item[title]\<close>) is rejected with status
  400 before anything is uploaded, and the job stays as it was.
\<close>

theorem nameless_body_rejected_counterexample:
  "persisted exampleDb ''req-1'' = Some syncJob \<and> \<not> job_isAsync syncJob
   \<and> hasFileBody (request1 emptyQuery namelessHeaders)
   \<and> uploads (responseHandler exampleEnv exampleDb (request1 emptyQuery namelessHeaders)) = []
   \<and> res_status (responseHandler exampleEnv exampleDb (request1 emptyQuery namelessHeaders))
       = Some 400
   \<and> map_option job_status
         (persisted (database (responseHandler exampleEnv exampleDb
            (request1 emptyQuery namelessHeaders))) ''req-1'')
       = Some Running
   \<and> map_option job_status
         (handled_job (responseHandler exampleEnv exampleDb (request1 emptyQuery namelessHeaders)))
       = Some Running"
  by code_simp

end
